theory Spec2Isabelle
  imports Main "HOL-Library.Sublist" "HOL-Library.Extended_Nat"
begin

section \<open>Python values\<close>

text \<open>
  A Python \<open>str\<close> is a sequence of Unicode code points, and \<open>len\<close> counts code points.
  A string is therefore a list of code points (natural numbers); \<open>ascii\<close> turns an
  ASCII literal into one, and the few non-ASCII literals of \<open>app.py\<close> are written with
  their code points (\<open>233\<close> is e-acute, \<open>128522\<close> the smiling-face emoji, and so on).
\<close>

type_synonym pystr = "nat list"

definition ascii :: "string \<Rightarrow> pystr" where
  "ascii s = map of_char s"

datatype pyerr = ValueError | IndexError | KeyError | TypeError | OverflowError | OSError

text \<open>
  A Python \<open>float\<close>: \<open>Finite m e\<close> is the number \<open>m * 2 ^ e\<close>. Only the comparison of a
  float with an integer constant is computed here; arithmetic on floats is left to the
  runtime (below).
\<close>

datatype pyfloat = Finite int int | PosInf | NegInf | NaN

datatype pynum = NInt int | NFloat pyfloat

text \<open>
  The value \<open>json.loads\<close> returns. A \<open>dict\<close> keeps its items in insertion order, so it is
  the list of its items; \<open>json.loads\<close> produces string keys only, and the keys of a dict
  are distinct (no theorem below needs that). \<open>map_of\<close> reads a key.
\<close>

datatype json =
    JNull
  | JBool bool
  | JInt int
  | JFloat pyfloat
  | JStr pystr
  | JList "json list"
  | JDict "(pystr \<times> json) list"

text \<open>
  A naive \<open>datetime\<close> is a count of microseconds on the local time line, a \<open>timedelta\<close> a
  difference of two such counts.
\<close>

type_synonym instant = int

definition minutes :: "int \<Rightarrow> int" where
  "minutes k = k * 60000000"

definition hours :: "int \<Rightarrow> int" where
  "hours k = k * 3600000000"

text \<open>
  What \<open>app.py\<close> takes from the Python runtime and does not define itself: the Unicode
  character database behind \<open>str.strip\<close>, \<open>str.lower\<close>, \<open>str.isdigit\<close>,
  \<open>str.isalnum\<close> and \<open>int\<close>; the limit on the digits \<open>int\<close> converts
  (\<open>sys.get_int_max_str_digits()\<close>, \<open>0\<close> for none); true division by \<open>1000\<close>;
  \<open>datetime.fromtimestamp\<close> and \<open>datetime.strptime\<close> (which depend on the platform and
  its time zone); and \<open>str\<close> of a value that is not a string. Every function of the model
  takes the runtime as its first argument, and every theorem holds for every runtime.
\<close>

record runtime =
  rt_isspace :: "nat \<Rightarrow> bool"
  rt_lower :: "pystr \<Rightarrow> pystr"
  rt_isdigit :: "nat \<Rightarrow> bool"
  rt_isalnum :: "nat \<Rightarrow> bool"
  rt_decimal :: "nat \<Rightarrow> nat option"
  rt_max_str_digits :: nat
  rt_truediv1000 :: "pynum \<Rightarrow> pyerr + pyfloat"
  rt_fromtimestamp :: "pynum \<Rightarrow> pyerr + instant"
  rt_strptime :: "pystr \<Rightarrow> pystr \<Rightarrow> pyerr + instant"
  rt_repr :: "json \<Rightarrow> pystr"

section \<open>String operations\<close>

text \<open>\<open>pat in text\<close>: \<open>pat\<close> occurs in \<open>text\<close> as a contiguous substring.\<close>

fun py_in :: "pystr \<Rightarrow> pystr \<Rightarrow> bool" where
  "py_in pat [] = (pat = [])"
| "py_in pat (c # cs) = (prefix pat (c # cs) \<or> py_in pat cs)"

definition startswith :: "pystr \<Rightarrow> pystr \<Rightarrow> bool" where
  "startswith text pat = prefix pat text"

definition endswith :: "pystr \<Rightarrow> pystr \<Rightarrow> bool" where
  "endswith text pat = suffix pat text"

definition py_strip :: "runtime \<Rightarrow> pystr \<Rightarrow> pystr" where
  "py_strip U s = rev (dropWhile (rt_isspace U) (rev (dropWhile (rt_isspace U) s)))"

definition py_isdigit :: "runtime \<Rightarrow> pystr \<Rightarrow> bool" where
  "py_isdigit U s = (s \<noteq> [] \<and> list_all (rt_isdigit U) s)"

definition py_isalnum :: "runtime \<Rightarrow> pystr \<Rightarrow> bool" where
  "py_isalnum U s = (s \<noteq> [] \<and> list_all (rt_isalnum U) s)"

definition py_count :: "pystr \<Rightarrow> nat \<Rightarrow> nat" where
  "py_count s c = length (filter (\<lambda>d. d = c) s)"

text \<open>\<open>str(n)\<close> for a natural number, as the f-strings of the paths need it.\<close>

fun decimal_digits :: "nat \<Rightarrow> pystr" where
  "decimal_digits n =
     (if n < 10 then [48 + n] else decimal_digits (n div 10) @ [48 + n mod 10])"

declare decimal_digits.simps [simp del]

subsection \<open>\<open>int(s)\<close>\<close>

text \<open>
  \<open>int\<close> of a string, base ten: optional white space, an optional sign, decimal digits
  with single underscores between them, optional white space. Below code point 127 the
  white space is tab, line feed, vertical tab, form feed, carriage return and space, and
  the digits are \<open>0\<close> to \<open>9\<close>; from 127 on the character database decides. Anything else
  raises \<open>ValueError\<close>, as does a number with more digits than the runtime's limit.
  \<open>ValueError\<close> is the only exception \<open>int\<close> raises on a string: it is the result \<open>None\<close>.
\<close>

definition int_space :: "runtime \<Rightarrow> nat \<Rightarrow> bool" where
  "int_space U c = (c \<in> {9, 10, 11, 12, 13, 32} \<or> (127 \<le> c \<and> rt_isspace U c))"

definition int_digit :: "runtime \<Rightarrow> nat \<Rightarrow> nat option" where
  "int_digit U c =
     (if 48 \<le> c \<and> c \<le> 57 then Some (c - 48)
      else if 127 \<le> c \<and> \<not> rt_isspace U c then rt_decimal U c
      else None)"

definition digit_or_underscore :: "runtime \<Rightarrow> nat \<Rightarrow> bool" where
  "digit_or_underscore U c = (c = 95 \<or> int_digit U c \<noteq> None)"

definition digits_value :: "runtime \<Rightarrow> pystr \<Rightarrow> int" where
  "digits_value U ds = foldl (\<lambda>acc c. 10 * acc + int (the (int_digit U c))) 0 ds"

definition py_int :: "runtime \<Rightarrow> pystr \<Rightarrow> int option" where
  "py_int U s =
     (let t = dropWhile (int_space U) s;
          negative = (t \<noteq> [] \<and> hd t = 45);
          t = (if t \<noteq> [] \<and> (hd t = 43 \<or> hd t = 45) then tl t else t);
          body = takeWhile (digit_or_underscore U) t;
          rest = dropWhile (digit_or_underscore U) t;
          ds = filter (\<lambda>c. c \<noteq> 95) body
      in if body = [] \<or> hd body = 95 \<or> last body = 95 \<or> py_in [95, 95] body then None
         else if \<not> list_all (int_space U) rest then None
         else if 0 < rt_max_str_digits U \<and> rt_max_str_digits U < length ds then None
         else Some (if negative then - digits_value U ds else digits_value U ds))"

subsection \<open>Indexing the root\<close>

text \<open>
  \<open>len(data)\<close> and \<open>data[i]\<close> for an integer \<open>i\<close>. A list counts negative indices from
  its end and raises \<open>IndexError\<close> out of range (the result \<open>None\<close> of \<open>list_getitem\<close>);
  a dict has string keys only, so an integer key raises \<open>KeyError\<close>; a string gives the
  one-character string.
\<close>

definition py_len :: "json \<Rightarrow> pyerr + nat" where
  "py_len d =
     (case d of
        JList xs \<Rightarrow> Inr (length xs)
      | JDict kvs \<Rightarrow> Inr (length kvs)
      | JStr s \<Rightarrow> Inr (length s)
      | _ \<Rightarrow> Inl TypeError)"

definition list_getitem :: "'a list \<Rightarrow> int \<Rightarrow> 'a option" where
  "list_getitem xs i =
     (if 0 \<le> i \<and> i < int (length xs) then Some (xs ! nat i)
      else if - int (length xs) \<le> i \<and> i < 0 then Some (xs ! nat (int (length xs) + i))
      else None)"

definition py_getitem :: "json \<Rightarrow> int \<Rightarrow> pyerr + json" where
  "py_getitem d i =
     (case d of
        JList xs \<Rightarrow> (case list_getitem xs i of None \<Rightarrow> Inl IndexError | Some v \<Rightarrow> Inr v)
      | JDict kvs \<Rightarrow> Inl KeyError
      | JStr s \<Rightarrow> (case list_getitem s i of None \<Rightarrow> Inl IndexError | Some c \<Rightarrow> Inr (JStr [c]))
      | _ \<Rightarrow> Inl TypeError)"

section \<open>The noise filter\<close>

definition technical_keywords :: "pystr list" where
  "technical_keywords = map ascii
     [''langchain_core'', ''OPENAI_API_KEY'', ''finish_reason'', ''stop'', ''generationInfo'',
      ''HumanMessage'', ''AIMessage'', ''SystemMessage'', ''BaseMessage'', ''ChatMessage'',
      ''function_call'', ''tool_calls'', ''response_metadata'', ''usage_metadata'',
      ''prompt_tokens'', ''completion_tokens'', ''total_tokens'']"

definition prompt_indicators :: "pystr list" where
  "prompt_indicators = map ascii
     [''You are'', ''Tu eres'', ''Eres un'', ''Your role is'', ''Tu rol es'',
      ''Instructions:'', ''Instrucciones:'', ''System:'', ''Sistema:'',
      ''Context:'', ''Contexto:'', ''Guidelines:'', ''Directrices:'',
      ''Rules:'', ''Reglas:'', ''Please follow'', ''Por favor sigue'',
      ''assistant'', ''asistente'', ''chatbot'', ''AI model'', ''modelo de IA'']"

text \<open>
  \<open>is_real_conversation_message(text)\<close>. Every caller passes a \<open>str\<close>, so the
  \<open>isinstance\<close> test of the first line holds and only the length test is left of it.
\<close>

definition is_real_conversation_message :: "runtime \<Rightarrow> pystr \<Rightarrow> bool" where
  "is_real_conversation_message U text =
     (if length (py_strip U text) < 3 then False
      else if list_ex (\<lambda>keyword. py_in keyword text) technical_keywords then False
      else if startswith text (ascii ''{'') \<and> endswith text (ascii ''}'') then False
      else if startswith text (ascii ''http'') \<and>
              (py_in (ascii ''api'') (rt_lower U text) \<or> py_in (ascii ''webhook'') (rt_lower U text))
        then False
      else if 1000 < length text \<and> list_ex (\<lambda>indicator. py_in indicator text) prompt_indicators
        then False
      else if length text < 50 \<and> (py_isdigit U text \<or> py_isalnum U text \<and> 20 < length text)
        then False
      else True)"

section \<open>The sender classifier\<close>

datatype sender = User | Bot

definition strong_user_patterns :: "pystr list" where
  "strong_user_patterns =
     map ascii [''hola'', ''hello'', ''hi'', ''gracias'', ''thanks'', ''ok'', ''si'', ''yes'', ''no'',
       ''cotiza'', ''cotizame'', ''precio'', ''cuanto'', ''how much'', ''quiero'', ''necesito'',
       ''dame'']
     @ [ascii ''env'' @ [237] @ ascii ''a'', ascii ''manda'', ascii ''por favor'']"

definition strong_bot_patterns :: "pystr list" where
  "strong_bot_patterns =
     map ascii [''puedo ayudarte'', ''can i help'', ''te recomiendo'', ''i recommend'',
       ''contactar'', ''contact'', ''especialista'', ''specialist'']
     @ [ascii ''cat'' @ [225] @ ascii ''logo'', ascii ''informaci'' @ [243] @ ascii ''n'']
     @ map ascii [''information'', ''whatsapp'', ''enlace'', ''link'', ''de nada'']
     @ [ascii ''you'' @ [39] @ ascii ''re welcome'', ascii ''buen d'' @ [237] @ ascii ''a'']
     @ map ascii [''good day'', ''si necesitas'', ''if you need'', ''no dudes'']
     @ [ascii ''don'' @ [39] @ ascii ''t hesitate'']"

definition formal_words :: "pystr list" where
  "formal_words = map ascii [''Sr.'', ''Sra.'', ''estimado'', ''estimada'']"

definition informal_tokens :: "pystr list" where
  "informal_tokens = [[128522], [128516], [128077]] @ map ascii ['':)'', '':D'', ''jaja'', ''jeje'']"

definition service_phrases :: "pystr list" where
  "service_phrases =
     [ascii ''puedo ayudarte'', ascii ''en qu'' @ [233] @ ascii '' puedo'',
      ascii ''c'' @ [243] @ ascii ''mo puedo'']"

definition request_words :: "pystr list" where
  "request_words = map ascii [''dame'', ''quiero'', ''necesito'']"

subsection \<open>Positional proximity\<close>

text \<open>The first index of the root whose element is a string equal to \<open>content\<close> after stripping.\<close>

fun content_position :: "runtime \<Rightarrow> pystr \<Rightarrow> json list \<Rightarrow> nat \<Rightarrow> nat option" where
  "content_position U content [] i = None"
| "content_position U content (item # items) i =
     (case item of
        JStr s \<Rightarrow>
          if py_strip U s = py_strip U content then Some i
          else content_position U content items (Suc i)
      | _ \<Rightarrow> content_position U content items (Suc i))"

definition abs_diff :: "nat \<Rightarrow> nat \<Rightarrow> nat" where
  "abs_diff pos p = nat \<bar>int pos - int p\<bar>"

text \<open>
  \<open>min(abs(pos - content_position) for pos in positions)\<close> when there is a position,
  \<open>float('inf')\<close> otherwise.
\<close>

definition closest_dist :: "nat list \<Rightarrow> nat \<Rightarrow> enat" where
  "closest_dist positions p =
     (if positions \<noteq> []
      then enat (fold min (map (\<lambda>pos. abs_diff pos p) (tl positions)) (abs_diff (hd positions) p))
      else \<infinity>)"

definition proximity_sender :: "runtime \<Rightarrow> pystr \<Rightarrow> json \<Rightarrow> sender option" where
  "proximity_sender U content data =
     (case data of
        JList xs \<Rightarrow>
          (case content_position U content xs 0 of
             None \<Rightarrow> None
           | Some p \<Rightarrow>
               (let search_range = 20;
                    window = [nat (max 0 (int p - search_range)) ..<
                              nat (min (int (length xs)) (int p + search_range))];
                    human_positions = filter (\<lambda>k. xs ! k = JStr (ascii ''HumanMessage'')) window;
                    ai_positions = filter (\<lambda>k. xs ! k = JStr (ascii ''AIMessage'')) window;
                    closest_human_dist = closest_dist human_positions p;
                    closest_ai_dist = closest_dist ai_positions p
                in if closest_human_dist < closest_ai_dist \<and> closest_human_dist \<le> 15 then Some User
                   else if closest_ai_dist < closest_human_dist \<and> closest_ai_dist \<le> 15 then Some Bot
                   else None))
      | _ \<Rightarrow> None)"

subsection \<open>The scored heuristic\<close>

text \<open>
  The two scores are a pair \<open>(user_score, bot_score)\<close>. \<open>length_band\<close> is the
  \<open>if\<close>/\<open>elif\<close> chain on \<open>len(content)\<close>, in the order of the source.
\<close>

definition length_band :: "nat \<Rightarrow> int \<times> int \<Rightarrow> int \<times> int" where
  "length_band len scores =
     (case scores of (user_score, bot_score) \<Rightarrow>
        if len < 20 then (user_score + 4, bot_score)
        else if len < 50 then (user_score + 2, bot_score)
        else if 150 < len then (user_score, bot_score + 3)
        else if 300 < len then (user_score, bot_score + 5)
        else (user_score, bot_score))"

definition pattern_score :: "pystr list \<Rightarrow> pystr \<Rightarrow> int \<Rightarrow> int" where
  "pattern_score patterns content_lower score =
     fold (\<lambda>pattern sc. if py_in pattern content_lower then sc + 3 else sc) patterns score"

definition scored_sender :: "runtime \<Rightarrow> pystr \<Rightarrow> sender" where
  "scored_sender U content =
     (let content_lower = rt_lower U content;
          user_score = pattern_score strong_user_patterns content_lower 0;
          bot_score = pattern_score strong_bot_patterns content_lower 0;
          len = length content;
          (user_score, bot_score) = length_band len (user_score, bot_score);
          bot_score = (if endswith content (ascii ''?'') \<and> 30 < len then bot_score + 4 else bot_score);
          user_score = (if len < 30 \<and> \<not> endswith content (ascii ''?'') then user_score + 3
                        else user_score);
          bot_score = (if py_in (ascii ''http'') content_lower \<or> py_in (ascii ''wa.me'') content_lower
                          \<or> py_in (ascii ''www.'') content_lower
                       then bot_score + 8 else bot_score);
          sentence_count = py_count content 46 + py_count content 33 + py_count content 63;
          bot_score = (if 1 < sentence_count then bot_score + 3 else bot_score);
          bot_score = (if list_ex (\<lambda>word. py_in word content) formal_words then bot_score + 3
                       else bot_score);
          user_score = (if list_ex (\<lambda>tok. py_in tok content) informal_tokens then user_score + 2
                        else user_score);
          user_score = (if startswith content_lower (ascii ''hola'') \<and> len < 30 then user_score + 6
                        else user_score);
          bot_score = (if list_ex (\<lambda>phrase. py_in phrase content_lower) service_phrases
                       then bot_score + 8 else bot_score)
      in if py_in (ascii ''cotiza'') content_lower \<and> len < 100 then User
         else
           (let user_score =
                  (if list_ex (\<lambda>word. py_in word content_lower) request_words \<and> len < 100
                   then user_score + 5 else user_score)
            in if user_score < bot_score then Bot else User))"

text \<open>
  \<open>determine_sender(content, path, data)\<close>. The path is lower-cased into a variable
  that nothing reads, so it has no part in the result.
\<close>

definition determine_sender :: "runtime \<Rightarrow> pystr \<Rightarrow> pystr \<Rightarrow> json \<Rightarrow> sender" where
  "determine_sender U content path data =
     (let content_clean = rt_lower U (py_strip U content)
      in if content_clean = ascii ''hola 1356'' then User
         else if content_clean = ascii ''cotizame 1 ciento de llaves'' then User
         else if content_clean = ascii ''ok gracias'' then User
         else if py_in ([191] @ ascii ''en qu'' @ [233] @ ascii '' puedo ayudarte'') content_clean then Bot
         else if py_in (ascii ''te recomiendo contactar'') content_clean then Bot
         else if py_in (ascii ''de nada! si necesitas'') content_clean then Bot
         else if py_in (ascii ''cotiza'') content_clean \<and> length content < 100 then User
         else (case proximity_sender U content data of
                 Some s \<Rightarrow> s
               | None \<Rightarrow> scored_sender U content))"

section \<open>The content extractor\<close>

text \<open>An entry of \<open>content_messages\<close>: the dict with the keys \<open>content\<close>, \<open>path\<close>, \<open>ref\<close>.\<close>

record content_info =
  ci_content :: pystr
  ci_path :: pystr
  ci_ref :: "int option"

text \<open>A message of the conversation: the dict with the keys \<open>sender\<close> and \<open>text\<close>.\<close>

record conv_message =
  msg_sender :: sender
  msg_text :: pystr

subsection \<open>Phase 1: objects with a \<open>content\<close> key\<close>

text \<open>
  The \<open>try\<close> block of \<open>find_content_references\<close> on one dict. The handler of
  \<open>ValueError\<close> and \<open>IndexError\<close> is \<open>literal_content\<close>; it runs when \<open>int\<close> fails and
  when the index is below \<open>-len(data)\<close>. An index of \<open>len(data)\<close> or more fails the
  \<open>if\<close>, which has no \<open>else\<close>: nothing is appended and nothing is raised.
\<close>

definition literal_content ::
  "runtime \<Rightarrow> pystr \<Rightarrow> pystr \<Rightarrow> content_info list \<Rightarrow> content_info list" where
  "literal_content U c path content_messages =
     (if is_real_conversation_message U c
      then content_messages @ [\<lparr>ci_content = c, ci_path = path, ci_ref = None\<rparr>]
      else content_messages)"

definition content_reference ::
  "runtime \<Rightarrow> json list \<Rightarrow> (pystr \<times> json) list \<Rightarrow> pystr \<Rightarrow> content_info list \<Rightarrow> content_info list"
  where
  "content_reference U data obj path content_messages =
     (case map_of obj (ascii ''content'') of
        Some (JStr c) \<Rightarrow>
          (case py_int U c of
             None \<Rightarrow> literal_content U c path content_messages
           | Some content_ref \<Rightarrow>
               if content_ref < int (length data) then
                 (case list_getitem data content_ref of
                    None \<Rightarrow> literal_content U c path content_messages
                  | Some actual_content \<Rightarrow>
                      (case actual_content of
                         JStr a \<Rightarrow>
                           if is_real_conversation_message U a
                           then content_messages @
                                  [\<lparr>ci_content = a, ci_path = path, ci_ref = Some content_ref\<rparr>]
                           else content_messages
                       | _ \<Rightarrow> content_messages))
               else content_messages)
      | _ \<Rightarrow> content_messages)"

definition key_path :: "pystr \<Rightarrow> pystr \<Rightarrow> pystr" where
  "key_path path key = (if path \<noteq> [] then path @ ascii ''.'' @ key else key)"

definition index_path :: "pystr \<Rightarrow> nat \<Rightarrow> pystr" where
  "index_path path i =
     (if path \<noteq> [] then path @ ascii ''['' @ decimal_digits i @ ascii '']''
      else ascii ''['' @ decimal_digits i @ ascii '']'')"

text \<open>
  \<open>find_content_references(obj, path)\<close> appends to the list \<open>content_messages\<close> of the
  enclosing function; here the list is passed in and returned. \<open>find_in_items\<close> is the
  loop over \<open>obj.items()\<close>, \<open>find_in_list\<close> the loop over \<open>enumerate(obj)\<close>.
\<close>

fun find_content_references ::
      "runtime \<Rightarrow> json list \<Rightarrow> json \<Rightarrow> pystr \<Rightarrow> content_info list \<Rightarrow> content_info list"
  and find_in_items ::
      "runtime \<Rightarrow> json list \<Rightarrow> (pystr \<times> json) list \<Rightarrow> pystr \<Rightarrow> content_info list \<Rightarrow> content_info list"
  and find_in_list ::
      "runtime \<Rightarrow> json list \<Rightarrow> json list \<Rightarrow> nat \<Rightarrow> pystr \<Rightarrow> content_info list \<Rightarrow> content_info list"
  where
  "find_content_references U data (JDict obj) path content_messages =
     find_in_items U data obj path (content_reference U data obj path content_messages)"
| "find_content_references U data (JList xs) path content_messages =
     find_in_list U data xs 0 path content_messages"
| "find_content_references U data JNull path content_messages = content_messages"
| "find_content_references U data (JBool b) path content_messages = content_messages"
| "find_content_references U data (JInt n) path content_messages = content_messages"
| "find_content_references U data (JFloat f) path content_messages = content_messages"
| "find_content_references U data (JStr s) path content_messages = content_messages"
| "find_in_items U data [] path content_messages = content_messages"
| "find_in_items U data ((key, v) # kvs) path content_messages =
     find_in_items U data kvs path
       (find_content_references U data v (key_path path key) content_messages)"
| "find_in_list U data [] i path content_messages = content_messages"
| "find_in_list U data (item # items) i path content_messages =
     find_in_list U data items (Suc i) path
       (find_content_references U data item (index_path path i) content_messages)"

text \<open>The loop that keeps the first entry of each content, with its set \<open>seen_contents\<close>.\<close>

fun unique_messages ::
  "content_info list \<Rightarrow> pystr set \<Rightarrow> content_info list \<Rightarrow> content_info list" where
  "unique_messages [] seen_contents unique = unique"
| "unique_messages (msg_info # rest) seen_contents unique =
     (if ci_content msg_info \<notin> seen_contents
      then unique_messages rest (insert (ci_content msg_info) seen_contents) (unique @ [msg_info])
      else unique_messages rest seen_contents unique)"

subsection \<open>Phase 2: the marker scan\<close>

definition py_str :: "runtime \<Rightarrow> json \<Rightarrow> pystr" where
  "py_str U v = (case v of JStr s \<Rightarrow> s | _ \<Rightarrow> rt_repr U v)"

definition add_message ::
  "runtime \<Rightarrow> sender \<Rightarrow> pystr \<Rightarrow> pystr set \<times> conv_message list \<Rightarrow> pystr set \<times> conv_message list"
  where
  "add_message U who t st =
     (case st of (seen_texts, messages) \<Rightarrow>
        if is_real_conversation_message U t \<and> t \<notin> seen_texts
        then (insert t seen_texts, messages @ [\<lparr>msg_sender = who, msg_text = t\<rparr>])
        else (seen_texts, messages))"

text \<open>The \<open>while i < len(data)\<close> loop; the state is \<open>(seen_texts, messages)\<close>.\<close>

function marker_scan ::
  "runtime \<Rightarrow> json list \<Rightarrow> nat \<Rightarrow> pystr set \<times> conv_message list \<Rightarrow> pystr set \<times> conv_message list"
  where
  "marker_scan U data i st =
     (if i < length data then
        (case data ! i of
           JStr item \<Rightarrow>
             if item = ascii ''HumanMessage'' \<and> i + 1 < length data
             then marker_scan U data (i + 2) (add_message U User (py_str U (data ! (i + 1))) st)
             else if item = ascii ''AIMessage'' \<and> i + 1 < length data
             then marker_scan U data (i + 2) (add_message U Bot (py_str U (data ! (i + 1))) st)
             else marker_scan U data (i + 1)
                    (add_message U (if length item < 100 then User else Bot) item st)
         | _ \<Rightarrow> marker_scan U data (i + 1) st)
      else st)"
  by pat_completeness auto
termination
  by (relation "measure (\<lambda>(U, data, i, st). length data - i)") auto

declare marker_scan.simps [simp del]

subsection \<open>\<open>extract_conversation_from_data\<close>\<close>

definition is_marker :: "json \<Rightarrow> bool" where
  "is_marker item = (item = JStr (ascii ''HumanMessage'') \<or> item = JStr (ascii ''AIMessage''))"

definition extract_conversation_from_data :: "runtime \<Rightarrow> json \<Rightarrow> conv_message list" where
  "extract_conversation_from_data U data =
     (case data of
        JList xs \<Rightarrow>
          if \<not> list_ex is_marker xs then []
          else
            (let content_messages = find_content_references U xs data [] [];
                 unique = unique_messages content_messages {} [];
                 messages = map (\<lambda>msg_info.
                                   \<lparr>msg_sender = determine_sender U (ci_content msg_info)
                                                   (ci_path msg_info) data,
                                    msg_text = ci_content msg_info\<rparr>) unique
             in if messages = [] then snd (marker_scan U xs 0 ({}, [])) else messages)
      | _ \<Rightarrow> [])"

section \<open>The user information extractor\<close>

record user_info =
  phone_number :: "pystr option"
  user_name :: "pystr option"

definition is_valid_phone_number :: "runtime \<Rightarrow> pystr \<Rightarrow> bool" where
  "is_valid_phone_number U phone_str =
     (if \<not> py_isdigit U phone_str then False
      else if 7 \<le> length phone_str \<and> length phone_str \<le> 15 then True
      else False)"

text \<open>The test on a key that contains \<open>from\<close>.\<close>

definition from_field :: "runtime \<Rightarrow> pystr \<Rightarrow> json \<Rightarrow> user_info \<Rightarrow> user_info" where
  "from_field U key v st =
     (case v of
        JStr s \<Rightarrow>
          if py_in (ascii ''from'') (rt_lower U key) \<and> is_valid_phone_number U s
          then st\<lparr>phone_number := Some s\<rparr> else st
      | _ \<Rightarrow> st)"

text \<open>
  The test on a key that contains \<open>name\<close>, with its \<open>try\<close> block. \<open>data\<close> is the root, of
  any type. The handler catches \<open>ValueError\<close> and \<open>IndexError\<close> and nothing else: every
  other exception leaves the function, as the result \<open>Inl\<close>.
\<close>

definition literal_name :: "runtime \<Rightarrow> pystr \<Rightarrow> user_info \<Rightarrow> user_info" where
  "literal_name U s st =
     (if 3 < length s \<and> \<not> py_isdigit U s then st\<lparr>user_name := Some s\<rparr> else st)"

definition name_field :: "runtime \<Rightarrow> json \<Rightarrow> pystr \<Rightarrow> json \<Rightarrow> user_info \<Rightarrow> pyerr + user_info" where
  "name_field U data key v st =
     (case v of
        JStr s \<Rightarrow>
          if py_in (ascii ''name'') (rt_lower U key) then
            (case py_int U s of
               None \<Rightarrow> Inr (literal_name U s st)
             | Some name_ref \<Rightarrow>
                 (case py_len data of
                    Inl e \<Rightarrow> if e = ValueError \<or> e = IndexError then Inr (literal_name U s st) else Inl e
                  | Inr n \<Rightarrow>
                      if name_ref < int n then
                        (case py_getitem data name_ref of
                           Inl e \<Rightarrow>
                             if e = ValueError \<or> e = IndexError then Inr (literal_name U s st)
                             else Inl e
                         | Inr (JStr potential_name) \<Rightarrow>
                             if 3 < length potential_name \<and> \<not> py_isdigit U potential_name
                             then Inr (st\<lparr>user_name := Some potential_name\<rparr>) else Inr st
                         | Inr _ \<Rightarrow> Inr st)
                      else Inr st))
          else Inr st
      | _ \<Rightarrow> Inr st)"

text \<open>
  \<open>search_user_info(obj)\<close> assigns to \<open>phone_number\<close> and \<open>user_name\<close> of the enclosing
  function; here they are the state, passed in and returned. \<open>not phone_number\<close> holds
  of \<open>None\<close> and of the empty string.
\<close>

fun search_user_info :: "runtime \<Rightarrow> json \<Rightarrow> json \<Rightarrow> user_info \<Rightarrow> pyerr + user_info"
  and search_items :: "runtime \<Rightarrow> json \<Rightarrow> (pystr \<times> json) list \<Rightarrow> user_info \<Rightarrow> pyerr + user_info"
  and search_list :: "runtime \<Rightarrow> json \<Rightarrow> json list \<Rightarrow> user_info \<Rightarrow> pyerr + user_info"
  where
  "search_user_info U data (JDict obj) st = search_items U data obj st"
| "search_user_info U data (JList xs) st = search_list U data xs st"
| "search_user_info U data (JStr s) st =
     Inr (if is_valid_phone_number U s \<and> (phone_number st = None \<or> phone_number st = Some [])
          then st\<lparr>phone_number := Some s\<rparr> else st)"
| "search_user_info U data JNull st = Inr st"
| "search_user_info U data (JBool b) st = Inr st"
| "search_user_info U data (JInt n) st = Inr st"
| "search_user_info U data (JFloat f) st = Inr st"
| "search_items U data [] st = Inr st"
| "search_items U data ((key, v) # kvs) st =
     (case name_field U data key v (from_field U key v st) of
        Inl e \<Rightarrow> Inl e
      | Inr st1 \<Rightarrow>
          (case search_user_info U data v st1 of
             Inl e \<Rightarrow> Inl e
           | Inr st2 \<Rightarrow> search_items U data kvs st2))"
| "search_list U data [] st = Inr st"
| "search_list U data (item # items) st =
     (case search_user_info U data item st of
        Inl e \<Rightarrow> Inl e
      | Inr st1 \<Rightarrow> search_list U data items st1)"

definition extract_user_info :: "runtime \<Rightarrow> json \<Rightarrow> pyerr + user_info" where
  "extract_user_info U data =
     search_user_info U data data \<lparr>phone_number = None, user_name = None\<rparr>"

section \<open>The timestamp extractor\<close>

definition time_keys :: "pystr list" where
  "time_keys = map ascii [''time'', ''date'', ''created'', ''timestamp'', ''at'']"

definition time_formats :: "pystr list" where
  "time_formats = map ascii
     [''%Y-%m-%d %H:%M:%S'', ''%Y-%m-%dT%H:%M:%S'', ''%d/%m/%Y %H:%M:%S'', ''%Y-%m-%d'', ''%d/%m/%Y'']"

text \<open>\<open>isinstance(value, (int, float))\<close>: a \<open>bool\<close> is an \<open>int\<close> in Python.\<close>

definition as_number :: "json \<Rightarrow> pynum option" where
  "as_number v =
     (case v of
        JBool b \<Rightarrow> Some (NInt (if b then 1 else 0))
      | JInt n \<Rightarrow> Some (NInt n)
      | JFloat f \<Rightarrow> Some (NFloat f)
      | _ \<Rightarrow> None)"

text \<open>\<open>value > k\<close> for an integer constant \<open>k\<close>; Python compares a float with an int exactly.\<close>

definition num_gt :: "pynum \<Rightarrow> int \<Rightarrow> bool" where
  "num_gt v k =
     (case v of
        NInt n \<Rightarrow> k < n
      | NFloat f \<Rightarrow>
          (case f of
             Finite m e \<Rightarrow> (if 0 \<le> e then k < m * 2 ^ nat e else k * 2 ^ nat (- e) < m)
           | PosInf \<Rightarrow> True
           | NegInf \<Rightarrow> False
           | NaN \<Rightarrow> False))"

text \<open>
  The loop over the formats: the first one that parses wins; \<open>ValueError\<close> goes on to the
  next format, any other exception leaves the loop.
\<close>

fun try_formats :: "runtime \<Rightarrow> pystr \<Rightarrow> pystr list \<Rightarrow> instant list \<Rightarrow> pyerr + instant list" where
  "try_formats U s [] timestamps = Inr timestamps"
| "try_formats U s (fmt # fmts) timestamps =
     (case rt_strptime U s fmt of
        Inr timestamp \<Rightarrow> Inr (timestamps @ [timestamp])
      | Inl e \<Rightarrow> if e = ValueError then try_formats U s fmts timestamps else Inl e)"

text \<open>
  The outer \<open>try\<close> block on one value. A number of at most \<open>10^9\<close> runs \<open>continue\<close>, which
  also skips the recursive call on that number; the call would do nothing.
\<close>

definition parse_timestamp :: "runtime \<Rightarrow> json \<Rightarrow> instant list \<Rightarrow> pyerr + instant list" where
  "parse_timestamp U v timestamps =
     (case as_number v of
        Some x \<Rightarrow>
          if num_gt x 1000000000000 then
            (case rt_truediv1000 U x of
               Inl e \<Rightarrow> Inl e
             | Inr q \<Rightarrow>
                 (case rt_fromtimestamp U (NFloat q) of
                    Inl e \<Rightarrow> Inl e
                  | Inr timestamp \<Rightarrow> Inr (timestamps @ [timestamp])))
          else if num_gt x 1000000000 then
            (case rt_fromtimestamp U x of
               Inl e \<Rightarrow> Inl e
             | Inr timestamp \<Rightarrow> Inr (timestamps @ [timestamp]))
          else Inr timestamps
      | None \<Rightarrow>
          (case v of
             JStr s \<Rightarrow> try_formats U s time_formats timestamps
           | _ \<Rightarrow> Inr timestamps))"

definition time_field :: "runtime \<Rightarrow> pystr \<Rightarrow> json \<Rightarrow> instant list \<Rightarrow> pyerr + instant list" where
  "time_field U key v timestamps =
     (if list_ex (\<lambda>time_key. py_in time_key (rt_lower U key)) time_keys then
        (case parse_timestamp U v timestamps of
           Inl e \<Rightarrow> if e = ValueError \<or> e = OSError then Inr timestamps else Inl e
         | Inr ts \<Rightarrow> Inr ts)
      else Inr timestamps)"

text \<open>
  \<open>search_for_timestamps(obj, path)\<close> appends to \<open>timestamps\<close> of the enclosing function;
  its path argument is built and never read, and is left out.
\<close>

fun search_for_timestamps :: "runtime \<Rightarrow> json \<Rightarrow> instant list \<Rightarrow> pyerr + instant list"
  and search_time_items :: "runtime \<Rightarrow> (pystr \<times> json) list \<Rightarrow> instant list \<Rightarrow> pyerr + instant list"
  and search_time_list :: "runtime \<Rightarrow> json list \<Rightarrow> instant list \<Rightarrow> pyerr + instant list"
  where
  "search_for_timestamps U (JDict obj) timestamps = search_time_items U obj timestamps"
| "search_for_timestamps U (JList xs) timestamps = search_time_list U xs timestamps"
| "search_for_timestamps U JNull timestamps = Inr timestamps"
| "search_for_timestamps U (JBool b) timestamps = Inr timestamps"
| "search_for_timestamps U (JInt n) timestamps = Inr timestamps"
| "search_for_timestamps U (JFloat f) timestamps = Inr timestamps"
| "search_for_timestamps U (JStr s) timestamps = Inr timestamps"
| "search_time_items U [] timestamps = Inr timestamps"
| "search_time_items U ((key, v) # kvs) timestamps =
     (case time_field U key v timestamps of
        Inl e \<Rightarrow> Inl e
      | Inr ts1 \<Rightarrow>
          (case search_for_timestamps U v ts1 of
             Inl e \<Rightarrow> Inl e
           | Inr ts2 \<Rightarrow> search_time_items U kvs ts2))"
| "search_time_list U [] timestamps = Inr timestamps"
| "search_time_list U (item # items) timestamps =
     (case search_for_timestamps U item timestamps of
        Inl e \<Rightarrow> Inl e
      | Inr ts1 \<Rightarrow> search_time_list U items ts1)"

text \<open>
  The clock: \<open>clock k\<close> is what the \<open>k\<close>-th call of \<open>datetime.now()\<close> returns, and the
  number of calls made so far is passed along. \<open>extract_timestamps_from_data\<close> reads the
  clock once, and only when the walk found nothing.
\<close>

definition synthetic_timestamps :: "instant \<Rightarrow> instant list" where
  "synthetic_timestamps now =
     (let base_time = now - hours 1
      in map (\<lambda>i. base_time + minutes (int i * 2)) [0..<10])"

definition extract_timestamps_from_data ::
  "runtime \<Rightarrow> (nat \<Rightarrow> instant) \<Rightarrow> nat \<Rightarrow> json \<Rightarrow> pyerr + (instant list \<times> nat)" where
  "extract_timestamps_from_data U clock k data =
     (case search_for_timestamps U data [] of
        Inl e \<Rightarrow> Inl e
      | Inr timestamps \<Rightarrow>
          if timestamps = [] then Inr (sort (synthetic_timestamps (clock k)), Suc k)
          else Inr (sort timestamps, k))"

section \<open>The conversation assembler\<close>

text \<open>A message of the record: the dict with the keys \<open>sender\<close>, \<open>text\<close> and \<open>timestamp\<close>.\<close>

record chat_message = conv_message +
  msg_timestamp :: instant

text \<open>
  The dict \<open>extract_chat_messages\<close> returns. The key \<open>status\<close> is present only in a
  record without conversation.
\<close>

record conversation_record =
  r_id :: pystr
  r_created :: instant
  r_updated :: instant
  r_messages :: "chat_message list"
  r_no_conversation :: bool
  r_status :: "pystr option"
  r_user_info :: user_info

text \<open>
  The loop over \<open>enumerate(conversation_messages)\<close>: message \<open>i\<close> takes \<open>timestamps[i]\<close>
  when there is one, and otherwise reads the clock and goes back \<open>n_total - i\<close> minutes (\<open>n_total\<close> is \<open>len(conversation_messages)\<close>).
\<close>

fun assign_timestamps ::
  "(nat \<Rightarrow> instant) \<Rightarrow> instant list \<Rightarrow> nat \<Rightarrow> conv_message list \<Rightarrow> nat \<Rightarrow> nat \<Rightarrow> chat_message list \<times> nat"
  where
  "assign_timestamps clock timestamps n_total [] i k = ([], k)"
| "assign_timestamps clock timestamps n_total (msg # rest) i k =
     (let (timestamp, k1) =
            (if i < length timestamps then (timestamps ! i, k)
             else (clock k - minutes (int n_total - int i), Suc k));
          (messages, k2) = assign_timestamps clock timestamps n_total rest (Suc i) k1
      in (\<lparr>msg_sender = msg_sender msg, msg_text = msg_text msg, msg_timestamp = timestamp\<rparr>
            # messages, k2))"

text \<open>
  \<open>extract_chat_messages(execution_data, chat_id)\<close>. \<open>list.sort\<close> is stable, and so is
  \<open>sort_key\<close>; the result of a stable sort is determined by the list and the key.
\<close>

definition extract_chat_messages ::
  "runtime \<Rightarrow> (nat \<Rightarrow> instant) \<Rightarrow> json \<Rightarrow> pystr \<Rightarrow> pyerr + conversation_record" where
  "extract_chat_messages U clock execution_data chat_id =
     (case extract_user_info U execution_data of
        Inl e \<Rightarrow> Inl e
      | Inr info \<Rightarrow>
          (let conversation_messages = extract_conversation_from_data U execution_data
           in if conversation_messages = [] then
                Inr \<lparr>r_id = chat_id, r_created = clock 0, r_updated = clock 1, r_messages = [],
                     r_no_conversation = True,
                     r_status = Some (ascii ''Registro sin conversaci'' @ [243] @ ascii ''n''),
                     r_user_info = info\<rparr>
              else
                (case extract_timestamps_from_data U clock 0 execution_data of
                   Inl e \<Rightarrow> Inl e
                 | Inr (timestamps, k) \<Rightarrow>
                     (let (messages, k1) =
                            assign_timestamps clock timestamps (length conversation_messages)
                              conversation_messages 0 k;
                          messages = sort_key msg_timestamp messages;
                          (conversation_created, k2) =
                            (if messages \<noteq> [] then (msg_timestamp (hd messages), k1)
                             else (clock k1, Suc k1))
                      in Inr \<lparr>r_id = chat_id, r_created = conversation_created,
                              r_updated = clock k2, r_messages = messages,
                              r_no_conversation = False, r_status = None,
                              r_user_info = info\<rparr>))))"

section \<open>A runtime to evaluate examples with\<close>

text \<open>
  The theorems below hold for every runtime; the examples need one. \<open>latin1_runtime\<close>
  has the character tables of CPython 3.11 for the code points below 256 (above, it
  takes no code point for white space, a digit or a letter and leaves it unchanged in
  \<open>lower\<close>; the examples have no such code point) and its default digit limit. Its
  clock functions are those of a machine in UTC, with instants counted from the Unix
  epoch, for whole seconds from \<open>0\<close> to the end of year 9999; the examples call them on
  nothing else, and they raise there. Its \<open>strptime\<close> parses no string, and its \<open>str\<close>
  of a value that is not a string is given for \<open>None\<close>, booleans and integers.
\<close>

definition latin1_isspace :: "nat \<Rightarrow> bool" where
  "latin1_isspace c = ((9 \<le> c \<and> c \<le> 13) \<or> (28 \<le> c \<and> c \<le> 32) \<or> c = 133 \<or> c = 160)"

definition latin1_lower :: "nat \<Rightarrow> nat" where
  "latin1_lower c =
     (if (65 \<le> c \<and> c \<le> 90) \<or> (192 \<le> c \<and> c \<le> 214) \<or> (216 \<le> c \<and> c \<le> 222)
      then c + 32 else c)"

definition latin1_isdigit :: "nat \<Rightarrow> bool" where
  "latin1_isdigit c = ((48 \<le> c \<and> c \<le> 57) \<or> c = 178 \<or> c = 179 \<or> c = 185)"

definition latin1_isalnum :: "nat \<Rightarrow> bool" where
  "latin1_isalnum c =
     ((48 \<le> c \<and> c \<le> 57) \<or> (65 \<le> c \<and> c \<le> 90) \<or> (97 \<le> c \<and> c \<le> 122) \<or> c = 170
      \<or> c = 178 \<or> c = 179 \<or> c = 181 \<or> c = 185 \<or> c = 186 \<or> (188 \<le> c \<and> c \<le> 190)
      \<or> (192 \<le> c \<and> c \<le> 214) \<or> (216 \<le> c \<and> c \<le> 246) \<or> (248 \<le> c \<and> c \<le> 255))"

definition utc_truediv1000 :: "pynum \<Rightarrow> pyerr + pyfloat" where
  "utc_truediv1000 x =
     (case x of
        NInt n \<Rightarrow> if 0 \<le> n \<and> n mod 1000 = 0 then Inr (Finite (n div 1000) 0) else Inl OverflowError
      | NFloat f \<Rightarrow> Inl OverflowError)"

definition utc_fromtimestamp :: "pynum \<Rightarrow> pyerr + instant" where
  "utc_fromtimestamp x =
     (case x of
        NInt n \<Rightarrow> if 0 \<le> n \<and> n \<le> 253402300799 then Inr (n * 1000000) else Inl ValueError
      | NFloat f \<Rightarrow>
          (case f of
             Finite m e \<Rightarrow>
               if e = 0 \<and> 0 \<le> m \<and> m \<le> 253402300799 then Inr (m * 1000000) else Inl ValueError
           | _ \<Rightarrow> Inl OverflowError))"

definition simple_repr :: "json \<Rightarrow> pystr" where
  "simple_repr v =
     (case v of
        JNull \<Rightarrow> ascii ''None''
      | JBool b \<Rightarrow> (if b then ascii ''True'' else ascii ''False'')
      | JInt n \<Rightarrow> (if n < 0 then 45 # decimal_digits (nat (- n)) else decimal_digits (nat n))
      | _ \<Rightarrow> [])"

definition latin1_runtime :: runtime where
  "latin1_runtime =
     \<lparr>rt_isspace = latin1_isspace, rt_lower = map latin1_lower, rt_isdigit = latin1_isdigit,
      rt_isalnum = latin1_isalnum, rt_decimal = (\<lambda>c. None), rt_max_str_digits = 4300,
      rt_truediv1000 = utc_truediv1000, rt_fromtimestamp = utc_fromtimestamp,
      rt_strptime = (\<lambda>s fmt. Inl ValueError), rt_repr = simple_repr\<rparr>"

text \<open>
  A runtime is \<open>ascii_conforming\<close> when its character functions are CPython's on the
  code points below 128 and its digit limit is one CPython accepts (none, or at least
  640). The theorems about one fixed input assume no more of the runtime than this.
\<close>

definition ascii_conforming :: "runtime \<Rightarrow> bool" where
  "ascii_conforming U =
     ((\<forall>c<128. rt_isspace U c = latin1_isspace c)
    \<and> (\<forall>c<128. rt_isdigit U c = latin1_isdigit c)
    \<and> (\<forall>c<128. rt_isalnum U c = latin1_isalnum c)
    \<and> (\<forall>s. list_all (\<lambda>c. c < 128) s \<longrightarrow> rt_lower U s = map latin1_lower s)
    \<and> (rt_max_str_digits U = 0 \<or> 640 \<le> rt_max_str_digits U))"

section \<open>Inputs of the examples\<close>

text \<open>The root sequence \<open>["HumanMessage", "hola", {"content": "1"}]\<close>.\<close>

definition hola_root :: "json list" where
  "hola_root =
     [JStr (ascii ''HumanMessage''), JStr (ascii ''hola''),
      JDict [(ascii ''content'', JStr (ascii ''1''))]]"

text \<open>The root sequence \<open>["HumanMessage", "hola", {"content": "+9999999"}]\<close>.\<close>

definition plus_root :: "json list" where
  "plus_root =
     [JStr (ascii ''HumanMessage''), JStr (ascii ''hola''),
      JDict [(ascii ''content'', JStr (ascii ''+9999999''))]]"

text \<open>The root object \<open>{"name": "0"}\<close>.\<close>

definition name_root :: json where
  "name_root = JDict [(ascii ''name'', JStr (ascii ''0''))]"

text \<open>The root object \<open>{"name": "0", "message": {"content": "hola"}}\<close>.\<close>

definition object_root :: json where
  "object_root =
     JDict [(ascii ''name'', JStr (ascii ''0'')),
            (ascii ''message'', JDict [(ascii ''content'', JStr (ascii ''hola''))])]"

text \<open>
  The root sequence
  \<open>["HumanMessage", "hola", "AIMessage", "Buenas tardes", {"created_at": 2000000000}]\<close>
  and a clock that starts in November 2023 and advances by a microsecond at each call.
\<close>

definition dated_root :: json where
  "dated_root =
     JList [JStr (ascii ''HumanMessage''), JStr (ascii ''hola''),
            JStr (ascii ''AIMessage''), JStr (ascii ''Buenas tardes''),
            JDict [(ascii ''created_at'', JInt 2000000000)]]"

definition example_clock :: "nat \<Rightarrow> instant" where
  "example_clock k = 1700000000000000 + int k"

text \<open>
  The root sequence \<open>["HumanMessage", "hola", "AIMessage", "prompt_tokens: 12",
  {"content": "usage_metadata"}]\<close>, with two strings that hold a technical keyword.
\<close>

definition noisy_root :: json where
  "noisy_root =
     JList [JStr (ascii ''HumanMessage''), JStr (ascii ''hola''),
            JStr (ascii ''AIMessage''), JStr (ascii ''prompt_tokens: 12''),
            JDict [(ascii ''content'', JStr (ascii ''usage_metadata''))]]"

text \<open>
  The root sequence \<open>["hello there", {"content": "hello"}]\<close>, which has no marker, and the
  root sequence \<open>["HumanMessage", "hola", {"content": "-2"}]\<close>.
\<close>

definition plain_root :: "json list" where
  "plain_root = [JStr (ascii ''hello there''), JDict [(ascii ''content'', JStr (ascii ''hello''))]]"

definition minus_root :: "json list" where
  "minus_root =
     [JStr (ascii ''HumanMessage''), JStr (ascii ''hola''),
      JDict [(ascii ''content'', JStr (ascii ''-2''))]]"

section \<open>The objects of a log\<close>

text \<open>
  The dicts of a log, each with the path at which \<open>find_content_references\<close> reaches it, in
  the order of its walk: a dict comes before the dicts inside its values, the items of a
  dict and the elements of a list come in their order. This is what "every object of the
  log" means in the theorems on phase 1.
\<close>

fun objects :: "json \<Rightarrow> pystr \<Rightarrow> ((pystr \<times> json) list \<times> pystr) list"
  and objects_items :: "(pystr \<times> json) list \<Rightarrow> pystr \<Rightarrow> ((pystr \<times> json) list \<times> pystr) list"
  and objects_list :: "json list \<Rightarrow> nat \<Rightarrow> pystr \<Rightarrow> ((pystr \<times> json) list \<times> pystr) list"
  where
  "objects (JDict obj) path = (obj, path) # objects_items obj path"
| "objects (JList xs) path = objects_list xs 0 path"
| "objects JNull path = []"
| "objects (JBool b) path = []"
| "objects (JInt n) path = []"
| "objects (JFloat f) path = []"
| "objects (JStr s) path = []"
| "objects_items [] path = []"
| "objects_items ((key, v) # kvs) path = objects v (key_path path key) @ objects_items kvs path"
| "objects_list [] i path = []"
| "objects_list (item # items) i path =
     objects item (index_path path i) @ objects_list items (Suc i) path"

text \<open>What the \<open>try\<close> block collects on each of a list of objects, one after the other.\<close>

definition collected ::
  "runtime \<Rightarrow> json list \<Rightarrow> ((pystr \<times> json) list \<times> pystr) list \<Rightarrow> content_info list" where
  "collected U data os = concat (map (\<lambda>(obj, path). content_reference U data obj path []) os)"

section \<open>Invariants of the two phases\<close>

text \<open>Every collected content, and every message text, has passed the noise filter.\<close>

definition all_real :: "runtime \<Rightarrow> content_info list \<Rightarrow> bool" where
  "all_real U cs = list_all (\<lambda>ci. is_real_conversation_message U (ci_content ci)) cs"

definition texts_real :: "runtime \<Rightarrow> pystr set \<times> conv_message list \<Rightarrow> bool" where
  "texts_real U st = list_all (\<lambda>m. is_real_conversation_message U (msg_text m)) (snd st)"

section \<open>Facts about the string operations\<close>

lemma py_in_sublist: "py_in pat s = sublist pat s"
  by (induction s) (auto simp add: sublist_Cons_right)

lemma real_no_keyword:
  assumes "is_real_conversation_message U t" and "keyword \<in> set technical_keywords"
  shows "\<not> py_in keyword t"
  using assms unfolding is_real_conversation_message_def
  by (auto simp add: list_ex_iff split: if_splits)

lemma latin1_conforming: "ascii_conforming latin1_runtime"
  by (simp add: ascii_conforming_def latin1_runtime_def)

lemma lower_ascii:
  assumes "ascii_conforming U" and "list_all (\<lambda>c. c < 128) s"
  shows "rt_lower U s = map latin1_lower s"
  using assms by (simp add: ascii_conforming_def)

lemma not_space_ascii:
  assumes "ascii_conforming U" and "c < 128" and "\<not> latin1_isspace c"
  shows "\<not> rt_isspace U c"
  using assms by (simp add: ascii_conforming_def)

lemma not_digit_ascii:
  assumes "ascii_conforming U" and "c < 128" and "\<not> latin1_isdigit c"
  shows "\<not> rt_isdigit U c"
  using assms by (simp add: ascii_conforming_def)

lemma strip_unchanged:
  assumes "s \<noteq> []" and "\<not> rt_isspace U (hd s)" and "\<not> rt_isspace U (last s)"
  shows "py_strip U s = s"
proof -
  have a: "dropWhile (rt_isspace U) s = s"
    using assms(1,2) by (cases s) simp_all
  have b: "dropWhile (rt_isspace U) (rev s) = rev s"
    using assms(1,3) by (cases "rev s") (simp_all add: last_rev [symmetric] del: last_rev)
  show ?thesis by (simp add: py_strip_def a b)
qed

lemma py_int_zero: "py_int U (ascii ''0'') = Some 0"
  by (auto simp add: py_int_def int_space_def digit_or_underscore_def int_digit_def
        digits_value_def ascii_def Let_def)

lemma py_int_one: "py_int U (ascii ''1'') = Some 1"
  by (auto simp add: py_int_def int_space_def digit_or_underscore_def int_digit_def
        digits_value_def ascii_def Let_def)

lemma py_int_plus:
  assumes "ascii_conforming U"
  shows "py_int U (ascii ''+9999999'') = Some 9999999"
proof -
  have "rt_max_str_digits U = 0 \<or> 640 \<le> rt_max_str_digits U"
    using assms by (simp add: ascii_conforming_def)
  then have "\<not> (0 < rt_max_str_digits U \<and> rt_max_str_digits U < 7)"
    by auto
  then show ?thesis
    by (auto simp add: py_int_def int_space_def digit_or_underscore_def int_digit_def
          digits_value_def ascii_def Let_def)
qed

section \<open>Facts about the user information extractor\<close>

text \<open>On a root that is a list, no exception leaves \<open>search_user_info\<close>.\<close>

lemma name_field_list_root:
  "\<exists>st'. name_field U (JList ys) key v st = Inr st'"
  by (auto simp add: name_field_def py_len_def py_getitem_def
           split: json.splits option.splits sum.splits)

lemma search_list_root:
  "d = JList ys \<Longrightarrow> \<exists>st'. search_user_info U d v st = Inr st'"
  "d = JList ys \<Longrightarrow> \<exists>st'. search_items U d kvs st = Inr st'"
  "d = JList ys \<Longrightarrow> \<exists>st'. search_list U d xs st = Inr st'"
proof (induction U d v st and U d kvs st and U d xs st
       rule: search_user_info_search_items_search_list.induct)
  case (9 U data key v kvs st)
  obtain st1 where s1: "name_field U data key v (from_field U key v st) = Inr st1"
    using name_field_list_root [of U ys key v] "9.prems" by blast
  obtain st2 where s2: "search_user_info U data v st1 = Inr st2"
    using "9.IH"(1) [OF s1 "9.prems"] by blast
  show ?case using s1 s2 "9.IH"(2) [OF s1 s2 "9.prems"] by simp
next
  case (11 U data item items st)
  obtain st1 where s1: "search_user_info U data item st = Inr st1"
    using "11.IH"(1) [OF "11.prems"] by blast
  show ?case using s1 "11.IH"(2) [OF s1 "11.prems"] by simp
qed simp_all

lemma extract_user_info_list_root:
  "\<exists>info. extract_user_info U (JList xs) = Inr info"
  unfolding extract_user_info_def
  using search_list_root(1) [of "JList xs" xs U "JList xs"] by simp

text \<open>
  On a root that is a dict, a \<open>name\<close> key whose string parses as an integer below the
  number of keys reads \<open>data[name_ref]\<close>, and the \<open>KeyError\<close> leaves the function.
\<close>

lemma name_field_dict_root:
  assumes "py_in (ascii ''name'') (rt_lower U key)" and "py_int U s = Some r"
      and "r < int (length kvs)"
  shows "name_field U (JDict kvs) key (JStr s) st = Inl KeyError"
  using assms by (simp add: name_field_def py_len_def py_getitem_def)

lemma name_key:
  assumes "ascii_conforming U"
  shows "py_in (ascii ''name'') (rt_lower U (ascii ''name''))"
proof -
  have "rt_lower U (ascii ''name'') = map latin1_lower (ascii ''name'')"
    by (rule lower_ascii [OF assms]) (simp add: ascii_def)
  then show ?thesis by (simp add: ascii_def latin1_lower_def)
qed

text \<open>A root that is not a list has no conversation, whatever it holds.\<close>

lemma no_conversation_record:
  assumes "extract_conversation_from_data U data = []"
  shows "extract_chat_messages U clock data chat_id =
           (case extract_user_info U data of
              Inl e \<Rightarrow> Inl e
            | Inr info \<Rightarrow>
                Inr \<lparr>r_id = chat_id, r_created = clock 0, r_updated = clock 1, r_messages = [],
                     r_no_conversation = True,
                     r_status = Some (ascii ''Registro sin conversaci'' @ [243] @ ascii ''n''),
                     r_user_info = info\<rparr>)"
  using assms by (simp add: extract_chat_messages_def split: sum.splits)

lemma non_sequence_root:
  assumes "\<And>xs. data \<noteq> JList xs"
  shows "extract_conversation_from_data U data = []"
proof (cases data)
  case (JList xs)
  then show ?thesis using assms by blast
qed (simp_all add: extract_conversation_from_data_def)

section \<open>Facts about the content extractor\<close>

lemma content_reference_out_of_range:
  assumes "map_of obj (ascii ''content'') = Some (JStr c)" and "py_int U c = Some r"
      and "int (length data) \<le> r"
  shows "content_reference U data obj path content_messages = content_messages"
  using assms by (simp add: content_reference_def)

lemma literal_content_real:
  "all_real U acc \<Longrightarrow> all_real U (literal_content U c path acc)"
  by (simp add: literal_content_def all_real_def)

lemma content_reference_real:
  "all_real U acc \<Longrightarrow> all_real U (content_reference U data obj path acc)"
  unfolding content_reference_def
  by (auto simp add: all_real_def literal_content_def split: option.splits json.splits)

lemma find_content_references_real:
  "all_real U acc \<Longrightarrow> all_real U (find_content_references U data v path acc)"
  "all_real U acc \<Longrightarrow> all_real U (find_in_items U data kvs path acc)"
  "all_real U acc \<Longrightarrow> all_real U (find_in_list U data xs i path acc)"
  by (induction U data v path acc and U data kvs path acc and U data xs i path acc
      rule: find_content_references_find_in_items_find_in_list.induct)
     (simp_all add: content_reference_real)

lemma unique_messages_subset:
  "set (unique_messages cs seen u) \<subseteq> set cs \<union> set u"
  by (induction cs seen u rule: unique_messages.induct) auto

lemma add_message_real: "texts_real U st \<Longrightarrow> texts_real U (add_message U who t st)"
  by (cases st) (simp add: add_message_def texts_real_def)

lemma marker_scan_real: "texts_real U st \<Longrightarrow> texts_real U (marker_scan U data i st)"
proof (induction U data i st rule: marker_scan.induct)
  case (1 U data i st)
  show ?case
  proof (cases "i < length data")
    case False
    then show ?thesis using "1.prems" by (simp add: marker_scan.simps)
  next
    case True
    then show ?thesis
      using "1.IH" "1.prems"
      by (subst marker_scan.simps) (auto simp add: add_message_real split: json.splits)
  qed
qed

lemma extract_conversation_real:
  assumes "m \<in> set (extract_conversation_from_data U data)"
  shows "is_real_conversation_message U (msg_text m)"
proof (cases data)
  case (JList xs)
  have p1: "all_real U (find_content_references U xs data [] [])"
    by (rule find_content_references_real) (simp add: all_real_def)
  have p2: "all_real U (unique_messages (find_content_references U xs data [] []) {} [])"
    using p1 unique_messages_subset [of "find_content_references U xs data [] []" "{}" "[]"]
    by (auto simp add: all_real_def list_all_iff)
  have p3: "texts_real U (marker_scan U xs 0 ({}, []))"
    by (rule marker_scan_real) (simp add: texts_real_def)
  show ?thesis
    using assms p2 p3 JList
    by (auto simp add: extract_conversation_from_data_def Let_def all_real_def texts_real_def
             list_all_iff split: if_splits)
qed (use assms in \<open>simp_all add: extract_conversation_from_data_def\<close>)

text \<open>
  Phase 1 is the walk over all objects of the log: what \<open>find_content_references\<close> appends
  is what the \<open>try\<close> block collects on each object, in the order of the walk.
\<close>

lemma content_reference_append:
  "content_reference U data obj path acc = acc @ content_reference U data obj path []"
  by (simp add: content_reference_def literal_content_def split: option.splits json.splits)

lemma collected_append: "collected U data (os @ ps) = collected U data os @ collected U data ps"
  by (simp add: collected_def)

lemma find_content_references_collected:
  "find_content_references U data v path acc = acc @ collected U data (objects v path)"
  "find_in_items U data kvs path acc = acc @ collected U data (objects_items kvs path)"
  "find_in_list U data xs i path acc = acc @ collected U data (objects_list xs i path)"
proof (induction U data v path acc and U data kvs path acc and U data xs i path acc
       rule: find_content_references_find_in_items_find_in_list.induct)
  case (1 U data obj path content_messages)
  have "collected U data ((obj, path) # objects_items obj path) =
          content_reference U data obj path [] @ collected U data (objects_items obj path)"
    by (simp add: collected_def)
  then show ?case
    using "1.IH" content_reference_append [of U data obj path content_messages] by simp
qed (simp_all add: collected_append, simp_all add: collected_def)

lemma collected_member:
  assumes "(obj, path) \<in> set os" and "e \<in> set (content_reference U data obj path [])"
  shows "e \<in> set (collected U data os)"
  using assms unfolding collected_def by force

text \<open>The loop that removes duplicates keeps every content, and what is already kept.\<close>

lemma unique_messages_keeps: "set u \<subseteq> set (unique_messages cs seen u)"
  by (induction cs seen u rule: unique_messages.induct) auto

lemma unique_messages_contents:
  assumes "x \<in> set cs" and "ci_content x \<notin> seen"
  shows "ci_content x \<in> ci_content ` set (unique_messages cs seen u)"
  using assms
proof (induction cs seen u rule: unique_messages.induct)
  case (1 seen u)
  then show ?case by simp
next
  case (2 y rest seen u)
  show ?case
  proof (cases "ci_content y \<in> seen")
    case True
    then have "x \<in> set rest" using "2.prems" by auto
    then show ?thesis using True "2.IH"(2) "2.prems"(2) by simp
  next
    case False
    have kept: "y \<in> set (unique_messages rest (insert (ci_content y) seen) (u @ [y]))"
      using unique_messages_keeps [of "u @ [y]" rest "insert (ci_content y) seen"] by auto
    show ?thesis
    proof (cases "ci_content x = ci_content y")
      case True
      then show ?thesis using False kept by force
    next
      case diff: False
      then have "x \<in> set rest" using "2.prems"(1) by auto
      moreover have "ci_content x \<notin> insert (ci_content y) seen"
        using diff "2.prems"(2) by simp
      ultimately show ?thesis using False "2.IH"(1) by simp
    qed
  qed
qed

lemma collected_content_is_a_message:
  assumes "list_ex is_marker xs" and "e \<in> set (find_content_references U xs (JList xs) [] [])"
  shows "ci_content e \<in> msg_text ` set (extract_conversation_from_data U (JList xs))"
proof -
  define unique where
    "unique = unique_messages (find_content_references U xs (JList xs) [] []) {} []"
  have c: "ci_content e \<in> ci_content ` set unique"
    unfolding unique_def by (rule unique_messages_contents [OF assms(2)]) simp
  then have ne: "unique \<noteq> []" by auto
  have "extract_conversation_from_data U (JList xs) =
          map (\<lambda>msg_info. \<lparr>msg_sender = determine_sender U (ci_content msg_info)
                                          (ci_path msg_info) (JList xs),
                           msg_text = ci_content msg_info\<rparr>) unique"
    using assms(1) ne
    by (simp add: extract_conversation_from_data_def Let_def unique_def
             del: find_content_references.simps)
  then have "msg_text ` set (extract_conversation_from_data U (JList xs)) = ci_content ` set unique"
    by (simp add: image_image)
  then show ?thesis using c by simp
qed

lemma content_reference_negative:
  assumes "map_of obj (ascii ''content'') = Some (JStr c)"
      and "py_int U c = Some r" and "- int (length data) \<le> r" and "r \<le> - 1"
  shows "content_reference U data obj path [] =
           (case data ! nat (int (length data) + r) of
              JStr a \<Rightarrow>
                if is_real_conversation_message U a
                then [\<lparr>ci_content = a, ci_path = path, ci_ref = Some r\<rparr>]
                else []
            | _ \<Rightarrow> [])"
  using assms by (simp add: content_reference_def list_getitem_def split: json.splits)

section \<open>Facts about the assembler\<close>

lemma assign_timestamps_texts:
  "map (\<lambda>m. (msg_sender m, msg_text m)) (fst (assign_timestamps clock ts n msgs i k)) =
   map (\<lambda>m. (msg_sender m, msg_text m)) msgs"
  by (induction msgs arbitrary: i k) (simp_all add: Let_def case_prod_beta)

lemma assign_timestamps_text_set:
  "msg_text ` set (fst (assign_timestamps clock ts n msgs i k)) = msg_text ` set msgs"
proof -
  have "map snd (map (\<lambda>m. (msg_sender m, msg_text m)) (fst (assign_timestamps clock ts n msgs i k))) =
        map snd (map (\<lambda>m. (msg_sender m, msg_text m)) msgs)"
    by (simp only: assign_timestamps_texts)
  then have "map msg_text (fst (assign_timestamps clock ts n msgs i k)) = map msg_text msgs"
    by (simp add: comp_def)
  then have "set (map msg_text (fst (assign_timestamps clock ts n msgs i k))) = set (map msg_text msgs)"
    by simp
  then show ?thesis by simp
qed

lemma record_texts:
  assumes "extract_chat_messages U clock data chat_id = Inr res"
  shows "msg_text ` set (r_messages res) \<subseteq> msg_text ` set (extract_conversation_from_data U data)"
proof (cases "extract_conversation_from_data U data = []")
  case True
  then show ?thesis
    using assms by (auto simp add: no_conversation_record split: sum.splits)
next
  case False
  obtain info where i: "extract_user_info U data = Inr info"
    using assms by (auto simp add: extract_chat_messages_def split: sum.splits)
  obtain timestamps k where t: "extract_timestamps_from_data U clock 0 data = Inr (timestamps, k)"
    using assms i False by (auto simp add: extract_chat_messages_def Let_def split: sum.splits)
  have "r_messages res =
          sort_key msg_timestamp
            (fst (assign_timestamps clock timestamps (length (extract_conversation_from_data U data))
                    (extract_conversation_from_data U data) 0 k))"
    using assms i False t
    by (auto simp add: extract_chat_messages_def Let_def case_prod_beta split: if_splits)
  then show ?thesis
    by (simp add: assign_timestamps_text_set)
qed

lemma sort_synthetic: "sort (synthetic_timestamps now) = synthetic_timestamps now"
proof -
  have "sorted (synthetic_timestamps now)"
    unfolding synthetic_timestamps_def Let_def minutes_def
    by (simp add: sorted_map sorted_wrt_iff_nth_less)
  then show ?thesis by (rule sorted_sort_id)
qed

section \<open>Facts about the example inputs\<close>

lemma hola_no_keyword: "\<not> list_ex (\<lambda>keyword. py_in keyword (ascii ''hola'')) technical_keywords"
  by code_simp

lemma strip_hola:
  assumes "ascii_conforming U"
  shows "py_strip U (ascii ''hola'') = ascii ''hola''"
proof -
  have "\<not> rt_isspace U 104" "\<not> rt_isspace U 97"
    using assms by (simp_all add: ascii_conforming_def latin1_isspace_def)
  then show ?thesis by (simp add: strip_unchanged ascii_def)
qed

lemma strip_marker:
  assumes "ascii_conforming U"
  shows "py_strip U (ascii ''HumanMessage'') = ascii ''HumanMessage''"
proof -
  have "\<not> rt_isspace U 72" "\<not> rt_isspace U 101"
    using assms by (simp_all add: ascii_conforming_def latin1_isspace_def)
  then show ?thesis by (simp add: strip_unchanged ascii_def)
qed

lemma lower_hola:
  assumes "ascii_conforming U"
  shows "rt_lower U (ascii ''hola'') = ascii ''hola''"
proof -
  have "rt_lower U (ascii ''hola'') = map latin1_lower (ascii ''hola'')"
    by (rule lower_ascii [OF assms]) (simp add: ascii_def)
  then show ?thesis by (simp add: ascii_def latin1_lower_def)
qed

lemma hola_is_real:
  assumes "ascii_conforming U"
  shows "is_real_conversation_message U (ascii ''hola'')"
proof -
  have d: "\<not> py_isdigit U (ascii ''hola'')"
    using assms by (simp add: py_isdigit_def ascii_def ascii_conforming_def latin1_isdigit_def)
  have l: "length (ascii ''hola'') = 4" by (simp add: ascii_def)
  have p: "\<not> startswith (ascii ''hola'') (ascii ''{'')"
          "\<not> startswith (ascii ''hola'') (ascii ''http'')"
    by (simp_all add: startswith_def ascii_def)
  show ?thesis
    unfolding is_real_conversation_message_def
    using d l p hola_no_keyword by (simp add: strip_hola [OF assms])
qed

lemma hola_patterns:
  "ascii ''hola'' \<noteq> ascii ''hola 1356''"
  "ascii ''hola'' \<noteq> ascii ''cotizame 1 ciento de llaves''"
  "ascii ''hola'' \<noteq> ascii ''ok gracias''"
  "\<not> py_in ([191] @ ascii ''en qu'' @ [233] @ ascii '' puedo ayudarte'') (ascii ''hola'')"
  "\<not> py_in (ascii ''te recomiendo contactar'') (ascii ''hola'')"
  "\<not> py_in (ascii ''de nada! si necesitas'') (ascii ''hola'')"
  "\<not> py_in (ascii ''cotiza'') (ascii ''hola'')"
  by code_simp+

section \<open>The entry point and exceptions\<close>

text \<open>
  Claim C1: for every decoded log and every id, \<open>extract_chat_messages\<close> returns a record and
  raises no exception. The code does not do this. For the root object \<open>{"name": "0"}\<close>,
  \<open>search_user_info\<close> reads \<open>data[0]\<close> on a dict; the \<open>KeyError\<close> is not among the exceptions
  its handler catches and leaves \<open>extract_chat_messages\<close>, on every runtime that is
  \<open>ascii_conforming\<close>.
\<close>

theorem name_reference_raises_on_object_root:
  assumes "ascii_conforming U"
  shows "extract_chat_messages U clock name_root chat_id = Inl KeyError"
proof -
  have "name_field U name_root (ascii ''name'') (JStr (ascii ''0'')) st = Inl KeyError" for st
    unfolding name_root_def
    by (rule name_field_dict_root [OF name_key [OF assms] py_int_zero]) simp
  then have "extract_user_info U name_root = Inl KeyError"
    by (simp add: extract_user_info_def) (simp add: name_root_def)
  then show ?thesis
    by (simp add: extract_chat_messages_def)
qed

theorem name_reference_raises_on_object_root_witness:
  "ascii_conforming latin1_runtime
   \<and> extract_chat_messages latin1_runtime example_clock name_root (ascii ''chat'') = Inl KeyError"
  using name_reference_raises_on_object_root [OF latin1_conforming, of example_clock "ascii ''chat''"]
    latin1_conforming
  by simp

section \<open>References out of range\<close>

text \<open>
  Claim C2: in phase 1, a content string that parses as an integer which is not a valid
  index of the root is taken literally, and accepted when it passes the noise filter. The
  code does not do this for an integer of \<open>len(data)\<close> or more. For the root sequence
  \<open>["HumanMessage", "hola", {"content": "+9999999"}]\<close> the string \<open>+9999999\<close> parses as
  9999999 and passes the noise filter, phase 1 collects nothing, and the messages are
  those of phase 2: the literal is not among them.
\<close>

theorem reference_beyond_the_end_is_dropped:
  assumes "ascii_conforming U"
  shows "py_int U (ascii ''+9999999'') = Some 9999999
       \<and> is_real_conversation_message U (ascii ''+9999999'')
       \<and> find_content_references U plus_root (JList plus_root) [] [] = []
       \<and> extract_conversation_from_data U (JList plus_root) =
           [\<lparr>msg_sender = User, msg_text = ascii ''hola''\<rparr>]"
proof -
  have r: "is_real_conversation_message U (ascii ''+9999999'')"
  proof -
    have s: "\<not> rt_isspace U 43" "\<not> rt_isspace U 57"
      using assms by (simp_all add: ascii_conforming_def latin1_isspace_def)
    have st: "py_strip U (ascii ''+9999999'') = ascii ''+9999999''"
      using s by (simp add: strip_unchanged ascii_def)
    have d: "\<not> py_isdigit U (ascii ''+9999999'')"
      using assms by (simp add: py_isdigit_def ascii_def ascii_conforming_def latin1_isdigit_def)
    have k: "\<not> list_ex (\<lambda>keyword. py_in keyword (ascii ''+9999999'')) technical_keywords"
      by code_simp
    have l: "length (ascii ''+9999999'') = 8" by (simp add: ascii_def)
    have p: "\<not> startswith (ascii ''+9999999'') (ascii ''{'')"
            "\<not> startswith (ascii ''+9999999'') (ascii ''http'')"
      by (simp_all add: startswith_def ascii_def)
    show ?thesis
      unfolding is_real_conversation_message_def
      using d l p k by (simp add: st)
  qed
  have c: "content_reference U plus_root [(ascii ''content'', JStr (ascii ''+9999999''))] path [] = []"
    for path
    by (rule content_reference_out_of_range [OF _ py_int_plus [OF assms]])
       (simp_all add: plus_root_def)
  have f: "find_in_list U plus_root plus_root 0 [] [] = []"
    by (subst (2) plus_root_def) (simp add: c)
  have m: "marker_scan U plus_root 0 ({}, []) =
             ({ascii ''hola''}, [\<lparr>msg_sender = User, msg_text = ascii ''hola''\<rparr>])"
  proof -
    have "marker_scan U plus_root 0 ({}, []) =
            marker_scan U plus_root (Suc (Suc 0))
              ({ascii ''hola''}, [\<lparr>msg_sender = User, msg_text = ascii ''hola''\<rparr>])"
      by (subst marker_scan.simps)
         (simp add: plus_root_def add_message_def py_str_def hola_is_real [OF assms])
    also have "\<dots> = marker_scan U plus_root (Suc (Suc (Suc 0)))
              ({ascii ''hola''}, [\<lparr>msg_sender = User, msg_text = ascii ''hola''\<rparr>])"
      by (subst marker_scan.simps) (simp add: plus_root_def)
    also have "\<dots> = ({ascii ''hola''}, [\<lparr>msg_sender = User, msg_text = ascii ''hola''\<rparr>])"
      by (subst marker_scan.simps) (simp add: plus_root_def)
    finally show ?thesis .
  qed
  have k: "list_ex is_marker plus_root"
    by (simp add: plus_root_def is_marker_def)
  have e: "extract_conversation_from_data U (JList plus_root) =
             [\<lparr>msg_sender = User, msg_text = ascii ''hola''\<rparr>]"
    unfolding extract_conversation_from_data_def
    using k by (simp add: f m)
  show ?thesis
    using r e f by (simp add: py_int_plus [OF assms])
qed

theorem reference_beyond_the_end_is_dropped_witness:
  "ascii_conforming latin1_runtime
   \<and> is_real_conversation_message latin1_runtime (ascii ''+9999999'')
   \<and> extract_conversation_from_data latin1_runtime (JList plus_root) =
       [\<lparr>msg_sender = User, msg_text = ascii ''hola''\<rparr>]"
  using reference_beyond_the_end_is_dropped [OF latin1_conforming] latin1_conforming
  by simp

section \<open>The length bands of the scored heuristic\<close>

text \<open>
  Claim C3, as the specification states it: the length of the content adds 4 to the
  user score below 20, 2 to the user score from 20 to 49, 3 to the bot score from 150
  to 299 and 5 to the bot score from 300 on. The chain of \<open>determine_sender\<close> tests
  \<open>length > 150\<close>, so a content of exactly 150 code points adds nothing to either score.
\<close>

theorem length_band_at_150_counterexample:
  "length (replicate 150 (97::nat)) = 150 \<and>
   length_band (length (replicate 150 (97::nat))) (0, 0) \<noteq> (0, 3)"
  by (simp add: length_band_def)

text \<open>
  Claim C3, amended: for a content of at most 300 code points the chain adds 4 to the
  user score when the length is below 20, 2 to the user score from 20 to 49, nothing
  from 50 to 150 and 3 to the bot score from 151 to 300; and whatever the length, it
  changes at most one of the two scores.
\<close>

theorem length_band_by_design:
  fixes content :: pystr
  shows "(length content \<le> 300 \<longrightarrow>
            length_band (length content) (user_score, bot_score) =
              (if length content < 20 then (user_score + 4, bot_score)
               else if length content \<le> 49 then (user_score + 2, bot_score)
               else if length content \<le> 150 then (user_score, bot_score)
               else (user_score, bot_score + 3)))
         \<and> (fst (length_band (length content) (user_score, bot_score)) = user_score
              \<or> snd (length_band (length content) (user_score, bot_score)) = bot_score)"
  by (auto simp add: length_band_def)

theorem length_band_by_design_witness:
  "length (replicate 200 (97::nat)) \<le> 300 \<and>
   length_band (length (replicate 200 (97::nat))) (0, 0) = (0, 3)"
  using length_band_by_design [of "replicate 200 (97::nat)" 0 0] by simp

section \<open>The reference of the specification's example\<close>

lemma hola_found:
  assumes "ascii_conforming U"
  shows "find_in_list U hola_root hola_root 0 [] [] =
           [\<lparr>ci_content = ascii ''hola'', ci_path = index_path [] 2, ci_ref = Some 1\<rparr>]"
proof -
  have m: "map_of [(ascii ''content'', JStr (ascii ''1''))] (ascii ''content'') =
             Some (JStr (ascii ''1''))"
    by simp
  have g: "list_getitem hola_root 1 = Some (JStr (ascii ''hola''))"
    by (simp add: list_getitem_def hola_root_def)
  have c: "content_reference U hola_root [(ascii ''content'', JStr (ascii ''1''))]
             (index_path [] 2) [] =
             [\<lparr>ci_content = ascii ''hola'', ci_path = index_path [] 2, ci_ref = Some 1\<rparr>]"
    unfolding content_reference_def
    using g by (simp add: m py_int_one hola_is_real [OF assms] hola_root_def)
  have "find_in_list U hola_root hola_root 0 [] [] =
          find_content_references U hola_root
            (JDict [(ascii ''content'', JStr (ascii ''1''))]) (index_path [] 2) []"
    by (subst (2) hola_root_def) (simp add: numeral_2_eq_2)
  also have "\<dots> = [\<lparr>ci_content = ascii ''hola'', ci_path = index_path [] 2, ci_ref = Some 1\<rparr>]"
    by (simp add: c)
  finally show ?thesis .
qed

lemma hola_position:
  assumes "ascii_conforming U"
  shows "content_position U (ascii ''hola'') hola_root 0 = Some 1"
proof -
  have "ascii ''HumanMessage'' \<noteq> ascii ''hola''" by (simp add: ascii_def)
  then show ?thesis
    by (simp add: hola_root_def strip_hola [OF assms] strip_marker [OF assms])
qed

lemma hola_window:
  "[nat (max 0 (int 1 - 20)) ..< nat (min (int (length hola_root)) (int 1 + 20))] = [0, 1, 2]"
  by (simp add: hola_root_def upt_rec)

lemma hola_proximity:
  assumes "ascii_conforming U"
  shows "proximity_sender U (ascii ''hola'') (JList hola_root) = Some User"
proof -
  have h: "filter (\<lambda>k. hola_root ! k = JStr (ascii ''HumanMessage'')) [0, 1, 2] = [0]"
    by (simp add: hola_root_def ascii_def)
  have a: "filter (\<lambda>k. hola_root ! k = JStr (ascii ''AIMessage'')) [0, 1, 2] = []"
    by (simp add: hola_root_def ascii_def)
  have d: "closest_dist [0] 1 = enat 1" "closest_dist [] 1 = \<infinity>"
    by (simp_all add: closest_dist_def abs_diff_def)
  have e: "enat 1 \<le> 15" by (simp add: numeral_eq_enat one_enat_def)
  show ?thesis
    unfolding proximity_sender_def
    using hola_window h a d e by (simp add: hola_position [OF assms] Let_def)
qed

lemma hola_sender:
  assumes "ascii_conforming U"
  shows "determine_sender U (ascii ''hola'') path (JList hola_root) = User"
  unfolding determine_sender_def
  using hola_patterns
  by (simp add: strip_hola [OF assms] lower_hola [OF assms] hola_proximity [OF assms])

text \<open>
  Claim C4: for the root sequence \<open>["HumanMessage", "hola", {"content": "1"}]\<close> the
  extraction resolves the content reference \<open>1\<close> to the root element \<open>hola\<close> and returns
  exactly one message, with the text \<open>hola\<close> and the sender user. The sender comes from the
  proximity rule: the marker \<open>HumanMessage\<close> is at distance 1 of \<open>hola\<close> and there is no
  \<open>AIMessage\<close>. This holds on every runtime that is \<open>ascii_conforming\<close>.
\<close>

theorem hola_reference_resolved:
  assumes "ascii_conforming U"
  shows "extract_conversation_from_data U
           (JList [JStr (ascii ''HumanMessage''), JStr (ascii ''hola''),
                   JDict [(ascii ''content'', JStr (ascii ''1''))]]) =
           [\<lparr>msg_sender = User, msg_text = ascii ''hola''\<rparr>]
       \<and> map ci_content
           (find_content_references U
              [JStr (ascii ''HumanMessage''), JStr (ascii ''hola''),
               JDict [(ascii ''content'', JStr (ascii ''1''))]]
              (JList [JStr (ascii ''HumanMessage''), JStr (ascii ''hola''),
                      JDict [(ascii ''content'', JStr (ascii ''1''))]]) [] []) =
           [ascii ''hola'']
       \<and> proximity_sender U (ascii ''hola'')
           (JList [JStr (ascii ''HumanMessage''), JStr (ascii ''hola''),
                   JDict [(ascii ''content'', JStr (ascii ''1''))]]) = Some User"
proof -
  have k: "list_ex is_marker hola_root"
    by (simp add: hola_root_def is_marker_def)
  have e: "extract_conversation_from_data U (JList hola_root) =
             [\<lparr>msg_sender = User, msg_text = ascii ''hola''\<rparr>]"
    unfolding extract_conversation_from_data_def
    using k by (simp add: hola_found [OF assms] hola_sender [OF assms])
  have f: "map ci_content (find_content_references U hola_root (JList hola_root) [] []) =
             [ascii ''hola'']"
    by (simp add: hola_found [OF assms])
  have p: "proximity_sender U (ascii ''hola'') (JList hola_root) = Some User"
    by (rule hola_proximity [OF assms])
  show ?thesis
    using e f p unfolding hola_root_def by blast
qed

theorem hola_reference_resolved_witness:
  "ascii_conforming latin1_runtime
   \<and> extract_conversation_from_data latin1_runtime (JList hola_root) =
       [\<lparr>msg_sender = User, msg_text = ascii ''hola''\<rparr>]"
  using hola_reference_resolved [OF latin1_conforming] latin1_conforming
  by (simp add: hola_root_def)

section \<open>Roots without a conversation\<close>

text \<open>
  Claim C5: when the root is a sequence and neither the string \<open>HumanMessage\<close> nor the
  string \<open>AIMessage\<close> is one of its elements, \<open>extract_chat_messages\<close> returns a record with
  an empty list of messages and \<open>no_conversation\<close> set, whatever else the log holds. In
  particular no exception leaves the user information extractor on such a root.
\<close>

theorem no_markers_no_conversation:
  assumes "JStr (ascii ''HumanMessage'') \<notin> set xs" and "JStr (ascii ''AIMessage'') \<notin> set xs"
  shows "extract_conversation_from_data U (JList xs) = []
       \<and> (\<exists>res. extract_chat_messages U clock (JList xs) chat_id = Inr res
                \<and> r_messages res = [] \<and> r_no_conversation res)"
proof -
  have n: "\<not> list_ex is_marker xs"
    using assms by (auto simp add: list_ex_iff is_marker_def)
  have c: "extract_conversation_from_data U (JList xs) = []"
    using n by (simp add: extract_conversation_from_data_def)
  obtain info where i: "extract_user_info U (JList xs) = Inr info"
    using extract_user_info_list_root by blast
  show ?thesis
    using c i by (simp add: no_conversation_record)
qed

theorem no_markers_no_conversation_witness:
  "JStr (ascii ''HumanMessage'') \<notin> set plain_root
   \<and> JStr (ascii ''AIMessage'') \<notin> set plain_root
   \<and> is_real_conversation_message latin1_runtime (ascii ''hello'')
   \<and> (\<exists>res. extract_chat_messages latin1_runtime example_clock (JList plain_root) (ascii ''chat'') =
               Inr res
            \<and> r_messages res = [] \<and> r_no_conversation res)"
proof -
  have h: "JStr (ascii ''HumanMessage'') \<notin> set plain_root"
          "JStr (ascii ''AIMessage'') \<notin> set plain_root"
    by (simp_all add: plain_root_def ascii_def)
  have r: "is_real_conversation_message latin1_runtime (ascii ''hello'')"
    by code_simp
  show ?thesis
    using no_markers_no_conversation [OF h, of latin1_runtime example_clock "ascii ''chat''"] h r
    by simp
qed

section \<open>Noise exclusion\<close>

text \<open>
  Claim C6: no message text of the returned record contains a technical keyword, such as
  \<open>prompt_tokens\<close>: every text accepted in either phase has passed
  \<open>is_real_conversation_message\<close>, which rejects a string that contains one. Containment is
  \<open>sublist\<close>, the contiguous sublists of the library, which \<open>py_in\<close> computes
  (\<open>py_in_sublist\<close>).
\<close>

theorem no_technical_keyword_in_output:
  assumes "extract_chat_messages U clock data chat_id = Inr res"
      and "m \<in> set (r_messages res)"
  shows "is_real_conversation_message U (msg_text m)
       \<and> (\<forall>keyword \<in> set technical_keywords. \<not> sublist keyword (msg_text m))
       \<and> \<not> sublist (ascii ''prompt_tokens'') (msg_text m)"
proof -
  have "msg_text m \<in> msg_text ` set (extract_conversation_from_data U data)"
    using record_texts [OF assms(1)] assms(2) by blast
  then obtain m' where m': "m' \<in> set (extract_conversation_from_data U data)"
    and t: "msg_text m = msg_text m'"
    by blast
  have r: "is_real_conversation_message U (msg_text m)"
    using extract_conversation_real [OF m'] t by simp
  have k: "\<forall>keyword \<in> set technical_keywords. \<not> sublist keyword (msg_text m)"
    using real_no_keyword [OF r] by (simp add: py_in_sublist)
  have "ascii ''prompt_tokens'' \<in> set technical_keywords"
    by (simp add: technical_keywords_def)
  then show ?thesis using r k by blast
qed

theorem no_technical_keyword_in_output_witness:
  "\<exists>res. extract_chat_messages latin1_runtime example_clock noisy_root (ascii ''chat'') = Inr res
        \<and> map msg_text (r_messages res) = [ascii ''hola'']
        \<and> list_all (\<lambda>m. \<not> sublist (ascii ''prompt_tokens'') (msg_text m)) (r_messages res)"
proof -
  have e: "extract_chat_messages latin1_runtime example_clock noisy_root (ascii ''chat'') =
             Inr \<lparr>r_id = ascii ''chat'', r_created = 1699996400000000,
                  r_updated = 1700000000000001,
                  r_messages = [\<lparr>msg_sender = User, msg_text = ascii ''hola'',
                                  msg_timestamp = 1699996400000000\<rparr>],
                  r_no_conversation = False, r_status = None,
                  r_user_info = \<lparr>phone_number = None, user_name = None\<rparr>\<rparr>"
    by code_simp
  show ?thesis
    using no_technical_keyword_in_output [OF e] by (simp add: e)
qed

section \<open>Time order\<close>

text \<open>
  Claim C7: when the returned record has a message, its messages are sorted by timestamp,
  non-decreasingly; messages with the same timestamp keep the order in which they were
  extracted; and \<open>created\<close> is the timestamp of the first message of the sorted list. The
  list before the sort is \<open>assigned\<close>: the extracted messages, in their order, each with its
  timestamp.
\<close>

theorem messages_sorted_by_timestamp:
  assumes "extract_chat_messages U clock data chat_id = Inr res"
      and "r_messages res \<noteq> []"
  shows "sorted (map msg_timestamp (r_messages res))
       \<and> r_created res = msg_timestamp (hd (r_messages res))
       \<and> (\<exists>timestamps k assigned.
             extract_timestamps_from_data U clock 0 data = Inr (timestamps, k)
           \<and> assigned =
               fst (assign_timestamps clock timestamps
                      (length (extract_conversation_from_data U data))
                      (extract_conversation_from_data U data) 0 k)
           \<and> map (\<lambda>m. (msg_sender m, msg_text m)) assigned =
               map (\<lambda>m. (msg_sender m, msg_text m)) (extract_conversation_from_data U data)
           \<and> r_messages res = sort_key msg_timestamp assigned
           \<and> (\<forall>t. filter (\<lambda>m. msg_timestamp m = t) (r_messages res) =
                   filter (\<lambda>m. msg_timestamp m = t) assigned))"
proof -
  obtain info where i: "extract_user_info U data = Inr info"
    using assms(1) by (auto simp add: extract_chat_messages_def split: sum.splits)
  have ne: "extract_conversation_from_data U data \<noteq> []"
    using assms i by (auto simp add: extract_chat_messages_def Let_def split: if_splits)
  obtain timestamps k where t: "extract_timestamps_from_data U clock 0 data = Inr (timestamps, k)"
    using assms(1) i ne by (auto simp add: extract_chat_messages_def Let_def split: sum.splits)
  define assigned where
    "assigned = fst (assign_timestamps clock timestamps
                       (length (extract_conversation_from_data U data))
                       (extract_conversation_from_data U data) 0 k)"
  have m: "r_messages res = sort_key msg_timestamp assigned"
    using assms(1) i ne t
    by (auto simp add: extract_chat_messages_def Let_def assigned_def case_prod_beta
             split: if_splits)
  have c: "r_created res = msg_timestamp (hd (sort_key msg_timestamp assigned))"
    using assms i ne t
    by (auto simp add: extract_chat_messages_def Let_def assigned_def case_prod_beta
             split: if_splits)
  have s: "sorted (map msg_timestamp (sort_key msg_timestamp assigned))"
    by (rule sorted_sort_key)
  have st: "\<forall>t. filter (\<lambda>m. msg_timestamp m = t) (sort_key msg_timestamp assigned) =
                 filter (\<lambda>m. msg_timestamp m = t) assigned"
    by (simp add: sort_key_stable)
  have o: "map (\<lambda>m. (msg_sender m, msg_text m)) assigned =
           map (\<lambda>m. (msg_sender m, msg_text m)) (extract_conversation_from_data U data)"
    unfolding assigned_def by (rule assign_timestamps_texts)
  show ?thesis
    using m c s st t o assigned_def by auto
qed

theorem messages_sorted_by_timestamp_witness:
  "\<exists>res. extract_chat_messages latin1_runtime example_clock dated_root (ascii ''chat'') = Inr res
        \<and> extract_conversation_from_data latin1_runtime dated_root =
            [\<lparr>msg_sender = User, msg_text = ascii ''hola''\<rparr>,
             \<lparr>msg_sender = Bot, msg_text = ascii ''Buenas tardes''\<rparr>]
        \<and> map msg_text (r_messages res) = [ascii ''Buenas tardes'', ascii ''hola'']
        \<and> map msg_timestamp (r_messages res) = [1699999940000000, 2000000000000000]
        \<and> sorted (map msg_timestamp (r_messages res))
        \<and> r_created res = msg_timestamp (hd (r_messages res))"
proof -
  have e: "extract_chat_messages latin1_runtime example_clock dated_root (ascii ''chat'') =
             Inr \<lparr>r_id = ascii ''chat'', r_created = 1699999940000000,
                  r_updated = 1700000000000001,
                  r_messages = [\<lparr>msg_sender = Bot, msg_text = ascii ''Buenas tardes'',
                                  msg_timestamp = 1699999940000000\<rparr>,
                                \<lparr>msg_sender = User, msg_text = ascii ''hola'',
                                  msg_timestamp = 2000000000000000\<rparr>],
                  r_no_conversation = False, r_status = None,
                  r_user_info = \<lparr>phone_number = None, user_name = None\<rparr>\<rparr>"
    by code_simp
  have c: "extract_conversation_from_data latin1_runtime dated_root =
            [\<lparr>msg_sender = User, msg_text = ascii ''hola''\<rparr>,
             \<lparr>msg_sender = Bot, msg_text = ascii ''Buenas tardes''\<rparr>]"
    by code_simp
  show ?thesis
    using messages_sorted_by_timestamp [OF e] c by (simp add: e)
qed

section \<open>Synthetic timestamps\<close>

text \<open>
  Claim C8: when the walk over the log finds no timestamp, \<open>extract_timestamps_from_data\<close>
  returns exactly 10 instants, the first one hour before the current time (the clock's
  reading \<open>clock k\<close>), each of the others 2 minutes after the one before it, in ascending
  order; the clock has been read once.
\<close>

theorem synthetic_when_none_found:
  assumes "search_for_timestamps U data [] = Inr []"
  shows "\<exists>ts. extract_timestamps_from_data U clock k data = Inr (ts, Suc k)
           \<and> length ts = 10
           \<and> ts ! 0 = clock k - hours 1
           \<and> (\<forall>i < 9. ts ! Suc i = ts ! i + minutes 2)
           \<and> sorted ts"
proof -
  have e: "extract_timestamps_from_data U clock k data =
             Inr (synthetic_timestamps (clock k), Suc k)"
    using assms by (simp add: extract_timestamps_from_data_def sort_synthetic)
  have l: "length (synthetic_timestamps (clock k)) = 10"
    by (simp add: synthetic_timestamps_def)
  have z: "synthetic_timestamps (clock k) ! 0 = clock k - hours 1"
    by (simp add: synthetic_timestamps_def minutes_def)
  have s: "\<forall>i < 9. synthetic_timestamps (clock k) ! Suc i =
                    synthetic_timestamps (clock k) ! i + minutes 2"
    by (simp add: synthetic_timestamps_def minutes_def)
  have o: "sorted (synthetic_timestamps (clock k))"
    using sort_synthetic [of "clock k"] sorted_sort [of "synthetic_timestamps (clock k)"]
    by simp
  show ?thesis using e l z s o by blast
qed

theorem synthetic_when_none_found_witness:
  "search_for_timestamps latin1_runtime (JList hola_root) [] = Inr []
   \<and> (\<exists>ts. extract_timestamps_from_data latin1_runtime example_clock 0 (JList hola_root) =
              Inr (ts, 1)
           \<and> length ts = 10
           \<and> ts ! 0 = 1699996400000000
           \<and> ts ! 1 = 1699996520000000
           \<and> sorted ts)"
proof -
  have h: "search_for_timestamps latin1_runtime (JList hola_root) [] = Inr []"
    by code_simp
  obtain ts where t: "extract_timestamps_from_data latin1_runtime example_clock 0 (JList hola_root) =
                        Inr (ts, Suc 0)"
    and l: "length ts = 10" and z: "ts ! 0 = example_clock 0 - hours 1"
    and s: "\<forall>i < 9. ts ! Suc i = ts ! i + minutes 2" and o: "sorted ts"
    using synthetic_when_none_found [OF h, of example_clock 0] by blast
  have "ts ! Suc 0 = ts ! 0 + minutes 2" using s by simp
  then have "ts ! 1 = 1699996520000000"
    using z by (simp add: example_clock_def hours_def minutes_def)
  then show ?thesis
    using h t l z o by (simp add: example_clock_def hours_def)
qed

section \<open>Roots that are not a sequence\<close>

text \<open>
  Claim C9: when the root is not a sequence, the conversation extraction returns no message
  and the record is flagged as having no conversation, even when an object of the log has
  a content that passes the noise filter. The first half holds for every such root
  (\<open>non_sequence_root\<close>), and the record is the flagged one whenever the user information
  extractor returns (\<open>no_conversation_record\<close>). It does not always return: for the root
  object \<open>{"name": "0", "message": {"content": "hola"}}\<close> the \<open>KeyError\<close> of claim C1 leaves
  \<open>extract_chat_messages\<close>, and there is no record.
\<close>

theorem object_root_with_name_reference_raises:
  assumes "ascii_conforming U"
  shows "is_real_conversation_message U (ascii ''hola'')
       \<and> extract_conversation_from_data U object_root = []
       \<and> extract_chat_messages U clock object_root chat_id = Inl KeyError"
proof -
  have c: "extract_conversation_from_data U object_root = []"
    by (rule non_sequence_root) (simp add: object_root_def)
  have "name_field U object_root (ascii ''name'') (JStr (ascii ''0'')) st = Inl KeyError" for st
    unfolding object_root_def
    by (rule name_field_dict_root [OF name_key [OF assms] py_int_zero]) simp
  then have "extract_user_info U object_root = Inl KeyError"
    by (simp add: extract_user_info_def) (simp add: object_root_def)
  then have "extract_chat_messages U clock object_root chat_id = Inl KeyError"
    by (simp add: extract_chat_messages_def)
  then show ?thesis
    using c hola_is_real [OF assms] by simp
qed

theorem object_root_with_name_reference_raises_witness:
  "ascii_conforming latin1_runtime
   \<and> extract_conversation_from_data latin1_runtime object_root = []
   \<and> extract_chat_messages latin1_runtime example_clock object_root (ascii ''chat'') = Inl KeyError"
  using object_root_with_name_reference_raises
          [OF latin1_conforming, of example_clock "ascii ''chat''"] latin1_conforming
  by simp

section \<open>Negative references\<close>

text \<open>
  Claim C10: in phase 1 over a root sequence of length \<open>n\<close>, for every object of the log
  whose content string parses as a negative integer \<open>r\<close> with \<open>-n \<le> r \<le> -1\<close>, the reference
  is resolved from the end, to the root element at index \<open>n + r\<close>, and is neither taken
  literally nor rejected as out of range. Phase 1 collects, object by object in the
  order of its walk, what the \<open>try\<close> block collects on each object; on such an object that
  is the root element at index \<open>n + r\<close>, with the object's path and the reference \<open>r\<close>, when
  the element is a string that passes the noise filter, and nothing otherwise. When it
  is collected it is in the list of phase 1, and, the root having a marker, it is the text
  of a message of the conversation.
\<close>

theorem negative_reference_resolved:
  assumes "(obj, path) \<in> set (objects (JList data) [])"
      and "map_of obj (ascii ''content'') = Some (JStr c)"
      and "py_int U c = Some r" and "- int (length data) \<le> r" and "r \<le> - 1"
  shows "find_content_references U data (JList data) [] [] =
           concat (map (\<lambda>(obj, path). content_reference U data obj path [])
                     (objects (JList data) []))
       \<and> content_reference U data obj path [] =
           (case data ! nat (int (length data) + r) of
              JStr a \<Rightarrow>
                if is_real_conversation_message U a
                then [\<lparr>ci_content = a, ci_path = path, ci_ref = Some r\<rparr>]
                else []
            | _ \<Rightarrow> [])
       \<and> (\<forall>a. data ! nat (int (length data) + r) = JStr a \<and> is_real_conversation_message U a
              \<longrightarrow> \<lparr>ci_content = a, ci_path = path, ci_ref = Some r\<rparr>
                     \<in> set (find_content_references U data (JList data) [] [])
                \<and> (list_ex is_marker data
                     \<longrightarrow> a \<in> msg_text ` set (extract_conversation_from_data U (JList data))))"
proof -
  have w: "find_content_references U data (JList data) [] [] =
             collected U data (objects (JList data) [])"
    using find_content_references_collected(1) [of U data "JList data" "[]" "[]"] by simp
  have s: "content_reference U data obj path [] =
             (case data ! nat (int (length data) + r) of
                JStr a \<Rightarrow>
                  if is_real_conversation_message U a
                  then [\<lparr>ci_content = a, ci_path = path, ci_ref = Some r\<rparr>]
                  else []
              | _ \<Rightarrow> [])"
    by (rule content_reference_negative [OF assms(2-5)])
  have m: "\<lparr>ci_content = a, ci_path = path, ci_ref = Some r\<rparr>
             \<in> set (find_content_references U data (JList data) [] [])
           \<and> (list_ex is_marker data
                \<longrightarrow> a \<in> msg_text ` set (extract_conversation_from_data U (JList data)))"
    if e: "data ! nat (int (length data) + r) = JStr a" and f: "is_real_conversation_message U a"
    for a
  proof -
    have "\<lparr>ci_content = a, ci_path = path, ci_ref = Some r\<rparr>
            \<in> set (content_reference U data obj path [])"
      using s e f by simp
    then have i: "\<lparr>ci_content = a, ci_path = path, ci_ref = Some r\<rparr>
                    \<in> set (find_content_references U data (JList data) [] [])"
      unfolding w by (rule collected_member [OF assms(1)])
    show ?thesis
      using i collected_content_is_a_message [OF _ i] by auto
  qed
  show ?thesis
    using w s m unfolding collected_def by blast
qed

theorem negative_reference_resolved_witness:
  "objects (JList minus_root) [] = [([(ascii ''content'', JStr (ascii ''-2''))], ascii ''[2]'')]
   \<and> map_of [(ascii ''content'', JStr (ascii ''-2''))] (ascii ''content'') = Some (JStr (ascii ''-2''))
   \<and> py_int latin1_runtime (ascii ''-2'') = Some (- 2)
   \<and> - int (length minus_root) \<le> - 2
   \<and> minus_root ! nat (int (length minus_root) + - 2) = JStr (ascii ''hola'')
   \<and> \<lparr>ci_content = ascii ''hola'', ci_path = ascii ''[2]'', ci_ref = Some (- 2)\<rparr>
        \<in> set (find_content_references latin1_runtime minus_root (JList minus_root) [] [])
   \<and> ascii ''hola'' \<in> msg_text ` set (extract_conversation_from_data latin1_runtime (JList minus_root))"
proof -
  have o: "objects (JList minus_root) [] = [([(ascii ''content'', JStr (ascii ''-2''))], ascii ''[2]'')]"
    by code_simp
  have i: "([(ascii ''content'', JStr (ascii ''-2''))], ascii ''[2]'') \<in> set (objects (JList minus_root) [])"
    by (subst o) simp
  have m: "map_of [(ascii ''content'', JStr (ascii ''-2''))] (ascii ''content'') =
             Some (JStr (ascii ''-2''))"
    by simp
  have p: "py_int latin1_runtime (ascii ''-2'') = Some (- 2)"
    by code_simp
  have l: "- int (length minus_root) \<le> - 2" "(- 2 :: int) \<le> - 1"
    by (simp_all add: minus_root_def)
  have r: "is_real_conversation_message latin1_runtime (ascii ''hola'')"
    by (rule hola_is_real [OF latin1_conforming])
  have d: "minus_root ! nat (int (length minus_root) + - 2) = JStr (ascii ''hola'')"
    by (simp add: minus_root_def)
  have k: "list_ex is_marker minus_root"
    by (simp add: minus_root_def is_marker_def)
  show ?thesis
    using negative_reference_resolved [OF i m p l] o m p l(1) r d k
    by blast
qed

end
